theory Spec2Isabelle
  imports Complex_Main
begin

section \<open>Numbers\<close>

text \<open>
  The C++ code computes with \<^verbatim>\<open>double\<close> and \<^verbatim>\<open>int\<close>. The model uses \<^typ>\<open>real\<close> for
  every \<^verbatim>\<open>double\<close>: rounding error, infinities and NaN are outside the model. An \<^verbatim>\<open>int\<close>
  has 32 bits. The bounds of the grid rectangle are computed from the position of the
  center, which can be any \<^verbatim>\<open>double\<close>, so their conversions and their arithmetic are
  modelled with the 32-bit range: \<open>toInt32\<close> and \<open>wrap32\<close> below. The other \<^verbatim>\<open>int\<close>s
  (the base zoom, the index of the walk over the ancestors, the loop counters) lie between
  \<^verbatim>\<open>int\<close> members of the provider or between the bounds, and are \<^typ>\<open>int\<close>.
\<close>

definition pow2 :: "real \<Rightarrow> real" where
  \<comment> \<open>\<^verbatim>\<open>pow(2.0, x)\<close>\<close>
  "pow2 x = 2 powr x"

definition c_round :: "real \<Rightarrow> int" where
  \<comment> \<open>C \<^verbatim>\<open>round\<close>: to the nearest integer, halfway cases away from zero\<close>
  "c_round x = (if 0 \<le> x then \<lfloor>x + 1 / 2\<rfloor> else \<lceil>x - 1 / 2\<rceil>)"

definition c_trunc :: "real \<Rightarrow> int" where
  \<comment> \<open>conversion of a \<^verbatim>\<open>double\<close> to \<^verbatim>\<open>int\<close>: the fractional part is discarded\<close>
  "c_trunc x = (if 0 \<le> x then \<lfloor>x\<rfloor> else \<lceil>x\<rceil>)"

definition int32 :: "int \<Rightarrow> bool" where
  \<comment> \<open>the range of a 32-bit \<^verbatim>\<open>int\<close>\<close>
  "int32 v \<longleftrightarrow> - 2147483648 \<le> v \<and> v < 2147483648"

definition toInt32 :: "real \<Rightarrow> int" where
  \<comment> \<open>conversion of a \<^verbatim>\<open>double\<close> to a 32-bit \<^verbatim>\<open>int\<close>: the fractional part is discarded. A
      result outside the range of \<^verbatim>\<open>int\<close> is undefined in C++; the model takes what the
      conversion instruction of x86-64 gives, \<^verbatim>\<open>INT_MIN\<close>\<close>
  "toInt32 x = (if int32 (c_trunc x) then c_trunc x else - 2147483648)"

definition wrap32 :: "int \<Rightarrow> int" where
  \<comment> \<open>the result of 32-bit \<^verbatim>\<open>int\<close> arithmetic, which wraps around on overflow\<close>
  "wrap32 v = (v + 2147483648) mod 4294967296 - 2147483648"

definition CLAMP :: "'a::linorder \<Rightarrow> 'a \<Rightarrow> 'a \<Rightarrow> 'a" where
  \<comment> \<open>the openFrameworks macro
      \<^verbatim>\<open>#define CLAMP(val,min,max) ((val) < (min) ? (min) : ((val > max) ? (max) : (val)))\<close>\<close>
  "CLAMP val mn mx = (if val < mn then mn else if val > mx then mx else val)"


section \<open>TileCoordinate\<close>

text \<open>
  \<^verbatim>\<open>TileCoordinate\<close> is a vector of three doubles; \<^verbatim>\<open>x\<close> is the column, \<^verbatim>\<open>y\<close> the row
  and \<^verbatim>\<open>z\<close> the zoom (\<^verbatim>\<open>draw\<close> pairs \<^verbatim>\<open>getColumn()\<close> with the horizontal tile size and
  \<^verbatim>\<open>getRow()\<close> with the vertical one).
\<close>

record TileCoordinate =
  column :: real
  row :: real
  zoom :: real

definition TileCoordinate :: "real \<Rightarrow> real \<Rightarrow> real \<Rightarrow> TileCoordinate" where
  \<comment> \<open>the constructor as \<^verbatim>\<open>getVisibleCoordinates\<close> calls it: \<^verbatim>\<open>TileCoordinate coord(row, col, baseZoom)\<close>\<close>
  "TileCoordinate r c z = \<lparr>column = c, row = r, zoom = z\<rparr>"

definition zoomTo :: "TileCoordinate \<Rightarrow> real \<Rightarrow> TileCoordinate" where
  \<comment> \<open>Modelled from the spec: \<^verbatim>\<open>TileCoordinate::zoomTo\<close> is not among the sources.
      ``multiply row and column by 2^(z - zoom), set zoom to z; valid for any real z''\<close>
  "zoomTo c z =
     \<lparr>column = column c * pow2 (z - zoom c), row = row c * pow2 (z - zoom c), zoom = z\<rparr>"

definition getFloored :: "TileCoordinate \<Rightarrow> TileCoordinate" where
  \<comment> \<open>Modelled from the spec: \<^verbatim>\<open>TileCoordinate::getFloored\<close> is not among the sources.
      ``truncates row/column toward zero while leaving zoom unchanged''\<close>
  "getFloored c =
     \<lparr>column = of_int (c_trunc (column c)), row = of_int (c_trunc (row c)), zoom = zoom c\<rparr>"

definition clampGrid :: "real \<Rightarrow> real \<Rightarrow> real" where
  \<comment> \<open>Modelled from the spec: one component of \<^verbatim>\<open>getClamped\<close>, clamped into the half-open
      interval \<open>[0, g)\<close>; a component at or beyond \<open>g\<close> becomes the last whole number below \<open>g\<close>\<close>
  "clampGrid g v = (if v < 0 then 0 else if g \<le> v then of_int (\<lceil>g\<rceil> - 1) else v)"

definition getClamped :: "TileCoordinate \<Rightarrow> TileCoordinate" where
  \<comment> \<open>Modelled from the spec: \<^verbatim>\<open>TileCoordinate::getClamped\<close> is not among the sources.
      ``clamp row, column to [0, 2^zoom)''\<close>
  "getClamped c =
     \<lparr>column = clampGrid (pow2 (zoom c)) (column c),
      row = clampGrid (pow2 (zoom c)) (row c),
      zoom = zoom c\<rparr>"

definition tc_less :: "TileCoordinate \<Rightarrow> TileCoordinate \<Rightarrow> bool" where
  \<comment> \<open>Modelled from the spec: \<^verbatim>\<open>TileCoordinate::operator<\<close> is not among the sources.
      ``Ordering for set/cache-key use is lexicographic over (zoom, row, column) or equivalent''.
      The sources do not show in which direction the operator compares; the model takes the
      ascending one. What the sets contain does not depend on that choice\<close>
  "tc_less a b \<longleftrightarrow>
     zoom a < zoom b \<or>
     (zoom a = zoom b \<and> (row a < row b \<or> (row a = row b \<and> column a < column b)))"

text \<open>
  A \<^verbatim>\<open>std::set<TileCoordinate>\<close> is the list of its elements in the order of iteration,
  ascending for \<^const>\<open>tc_less\<close>. \<^verbatim>\<open>insert\<close> leaves the set alone when it already has an
  equivalent element.
\<close>

fun set_insert :: "TileCoordinate \<Rightarrow> TileCoordinate list \<Rightarrow> TileCoordinate list" where
  "set_insert x [] = [x]"
| "set_insert x (y # ys) =
     (if tc_less x y then x # y # ys
      else if tc_less y x then y # set_insert x ys
      else y # ys)"


section \<open>Provider\<close>

record GeoCoordinate =
  latitude :: real
  longitude :: real

text \<open>
  The provider's configuration and its projection. \<^verbatim>\<open>geoToTile\<close> goes through the
  provider's projection object, which is not among the sources: it is a field of the
  record, so every theorem holds for every projection.
\<close>

record BaseURITileProvider =
  minZoom :: int
  maxZoom :: int
  tileWidth :: int
  tileHeight :: int
  geoToTile :: "GeoCoordinate \<Rightarrow> TileCoordinate"


section \<open>Loader\<close>

datatype Tile = Tile nat

datatype FetchHandle = FetchHandle TileCoordinate

datatype loader_error = ExistsException

text \<open>
  The loader of a layer: the cached tiles, the fetches that wait for a worker and the
  fetches that are transferring data.
\<close>

record TileLoader =
  tiles :: "TileCoordinate \<rightharpoonup> Tile"
  queued :: "TileCoordinate list"
  active :: "TileCoordinate list"

definition requestTile :: "BaseURITileProvider \<Rightarrow> TileCoordinate \<Rightarrow> FetchHandle" where
  \<comment> \<open>Modelled from the spec: \<^verbatim>\<open>requestTile\<close> is not among the sources.
      ``returns a handle/future the Loader consumes''\<close>
  "requestTile p c = FetchHandle c"

definition getTile :: "TileLoader \<Rightarrow> TileCoordinate \<Rightarrow> Tile option" where
  \<comment> \<open>Modelled from the spec: \<^verbatim>\<open>getTile\<close> is not among the sources.
      ``non-blocking lookup; never initiates a fetch''\<close>
  "getTile l c = tiles l c"

definition cancelQueued :: "TileLoader \<Rightarrow> TileLoader" where
  \<comment> \<open>Modelled from the spec: \<^verbatim>\<open>cancelQueued\<close> is not among the sources.
      ``cancels fetches that have not yet started transferring data (still waiting), leaving
      in-progress transfers alone''\<close>
  "cancelQueued l = l\<lparr>queued := []\<rparr>"

definition pending :: "TileLoader \<Rightarrow> TileCoordinate \<Rightarrow> bool" where
  "pending l c \<longleftrightarrow> c \<in> set (queued l) \<or> c \<in> set (active l)"

definition start :: "TileLoader \<Rightarrow> TileCoordinate \<Rightarrow> FetchHandle \<Rightarrow> loader_error + TileLoader" where
  \<comment> \<open>Modelled from the spec: \<^verbatim>\<open>start\<close> is not among the sources.
      ``begins an asynchronous fetch for coord unless one is already in flight or the
      coordinate is already cached; fails if the coordinate is already pending''.
      The failure is the \<^verbatim>\<open>Poco::ExistsException\<close> that the caller catches.\<close>
  "start l c h =
     (if pending l c then Inl ExistsException
      else if tiles l c \<noteq> None then Inr l
      else Inr (l\<lparr>queued := queued l @ [c]\<rparr>))"


section \<open>Request order\<close>

definition zoomDistance :: "TileCoordinate \<Rightarrow> TileCoordinate \<Rightarrow> real" where
  "zoomDistance cen c = \<bar>zoom c - zoom cen\<bar>"

definition gridDistance :: "TileCoordinate \<Rightarrow> TileCoordinate \<Rightarrow> real" where
  \<comment> \<open>the square of the Euclidean row/column distance, which orders as the distance does\<close>
  "gridDistance cen c =
     (column c - column (zoomTo cen (zoom c))) ^ 2 + (row c - row (zoomTo cen (zoom c))) ^ 2"

definition QueueSorter :: "TileCoordinate \<Rightarrow> TileCoordinate \<Rightarrow> TileCoordinate \<Rightarrow> bool" where
  \<comment> \<open>Modelled from the spec: \<^verbatim>\<open>QueueSorter\<close> is not among the sources.
      ``lower zoom distance first, then by Euclidean row/column distance''\<close>
  "QueueSorter cen a b \<longleftrightarrow>
     zoomDistance cen a < zoomDistance cen b \<or>
     (zoomDistance cen a = zoomDistance cen b \<and> gridDistance cen a < gridDistance cen b)"

fun sort_insert :: "('a \<Rightarrow> 'a \<Rightarrow> bool) \<Rightarrow> 'a \<Rightarrow> 'a list \<Rightarrow> 'a list" where
  "sort_insert lt x [] = [x]"
| "sort_insert lt x (y # ys) = (if lt x y then x # y # ys else y # sort_insert lt x ys)"

definition std_sort :: "('a \<Rightarrow> 'a \<Rightarrow> bool) \<Rightarrow> 'a list \<Rightarrow> 'a list" where
  \<comment> \<open>\<^verbatim>\<open>std::sort\<close> with a comparator, as a sort by insertion\<close>
  "std_sort lt xs = foldr (sort_insert lt) xs []"


section \<open>TileLayer\<close>

record TileDraw =
  drawnCoord :: TileCoordinate
  drawnTile :: Tile
  tx :: real
  ty :: real
  tw :: real
  th :: real

text \<open>
  The members of \<^verbatim>\<open>TileLayer\<close>. The framebuffer \<^verbatim>\<open>_fbo\<close> is the list of the tile draws
  made into it since it was last cleared. Two more fields stand for what the layer writes
  outside itself: \<open>ofLog\<close>, the entries of \<^verbatim>\<open>ofLogError\<close> (module and message), and
  \<open>screen\<close>, the framebuffer blits (position and content).
\<close>

record TileLayer =
  width :: real
  height :: real
  provider :: "BaseURITileProvider option"
  loader :: TileLoader
  coordsDirty :: bool
  visisbleCoords :: "TileCoordinate list"
  center :: TileCoordinate
  padColumn :: int
  padRow :: int
  fbo :: "TileDraw list"
  ofLog :: "(string \<times> string) list"
  screen :: "(real \<times> real \<times> TileDraw list) list"

datatype crash = NullProvider

definition ofLogError :: "string \<Rightarrow> string \<Rightarrow> TileLayer \<Rightarrow> TileLayer" where
  "ofLogError origin msg s = s\<lparr>ofLog := ofLog s @ [(origin, msg)]\<rparr>"

definition newTileLayer :: TileLayer where
  \<comment> \<open>the constructor\<close>
  "newTileLayer =
     \<lparr>width = 0, height = 0, provider = None,
      loader = \<lparr>tiles = Map.empty, queued = [], active = []\<rparr>,
      coordsDirty = True, visisbleCoords = [],
      center = \<lparr>column = 1 / 2, row = 1 / 2, zoom = 0\<rparr>,
      padColumn = 0, padRow = 0, fbo = [], ofLog = [], screen = []\<rparr>"

definition setWidth :: "real \<Rightarrow> TileLayer \<Rightarrow> TileLayer" where
  "setWidth w s = s\<lparr>width := w, coordsDirty := True\<rparr>"

definition setHeight :: "real \<Rightarrow> TileLayer \<Rightarrow> TileLayer" where
  "setHeight h s = s\<lparr>height := h, coordsDirty := True\<rparr>"

definition getCenter :: "TileLayer \<Rightarrow> TileCoordinate" where
  "getCenter s = center s"

definition setCenter :: "TileCoordinate \<Rightarrow> TileLayer \<Rightarrow> TileLayer" where
  "setCenter c s = s\<lparr>center := c, coordsDirty := True\<rparr>"

definition setCenterGeo :: "GeoCoordinate \<Rightarrow> real \<Rightarrow> TileLayer \<Rightarrow> TileLayer" where
  \<comment> \<open>\<^verbatim>\<open>setCenter(const Geo::Coordinate&, double)\<close>\<close>
  "setCenterGeo g z s =
     (case provider s of
        Some p \<Rightarrow> setCenter (zoomTo (geoToTile p g) z) s
      | None \<Rightarrow> ofLogError ''TileLayer::setCenter'' ''Provider is not defined.'' s)"

definition onTileCached :: "TileCoordinate \<Rightarrow> TileLayer \<Rightarrow> TileLayer" where
  "onTileCached args s = s\<lparr>coordsDirty := True\<rparr>"

definition onTileUncached :: "TileCoordinate \<Rightarrow> TileLayer \<Rightarrow> TileLayer" where
  "onTileUncached args s = s\<lparr>coordsDirty := True\<rparr>"

definition layerPointToTileCoordinate ::
  "real \<times> real \<Rightarrow> TileLayer \<Rightarrow> TileCoordinate \<times> TileLayer" where
  "layerPointToTileCoordinate layerPoint s =
     (let coord = getCenter s in
      case provider s of
        Some p \<Rightarrow>
          (coord\<lparr>column := column coord
                     + (fst layerPoint - width s / 2) / real_of_int (tileWidth p),
                 row := row coord
                     + (snd layerPoint - height s / 2) / real_of_int (tileHeight p)\<rparr>,
           s)
      | None \<Rightarrow>
          (coord,
           ofLogError ''TileLayer::layerPointToTileCoordinate'' ''Provider is not defined.'' s))"


subsection \<open>getVisibleCoordinates: the grid rectangle\<close>

definition baseZoom :: "TileLayer \<Rightarrow> BaseURITileProvider \<Rightarrow> int" where
  "baseZoom s p =
     c_trunc (CLAMP (real_of_int (c_round (zoom (center s))))
                    (real_of_int (minZoom p)) (real_of_int (maxZoom p)))"

definition corner :: "real \<times> real \<Rightarrow> int \<Rightarrow> TileLayer \<Rightarrow> TileCoordinate \<times> TileLayer" where
  \<comment> \<open>\<^verbatim>\<open>layerPointToTileCoordinate(point).zoomTo(baseZoom)\<close>\<close>
  "corner pt bz s =
     (case layerPointToTileCoordinate pt s of (c, s') \<Rightarrow> (zoomTo c (real_of_int bz), s'))"

record Bounds =
  minCol :: int
  maxCol :: int
  minRow :: int
  maxRow :: int

definition gridBounds ::
  "TileCoordinate \<Rightarrow> TileCoordinate \<Rightarrow> TileCoordinate \<Rightarrow> TileCoordinate \<Rightarrow>
   int \<Rightarrow> int \<Rightarrow> real \<Rightarrow> Bounds" where
  \<comment> \<open>from the four corners to the clamped loop bounds. \<^verbatim>\<open>std::floor\<close> and \<^verbatim>\<open>std::ceil\<close>
      give a \<^verbatim>\<open>double\<close>, converted on the initialisation of the \<^verbatim>\<open>int\<close>; the padding is
      \<^verbatim>\<open>int\<close> arithmetic; \<^verbatim>\<open>CLAMP\<close> of an \<^verbatim>\<open>int\<close> against the \<^verbatim>\<open>double\<close> \<^verbatim>\<open>gridSize\<close> is a
      \<^verbatim>\<open>double\<close>, converted back on assignment\<close>
  "gridBounds topLeft topRight bottomLeft bottomRight padC padR gridSize =
     (let minCol0 = toInt32 (real_of_int
                       \<lfloor>min (min (column topLeft) (column topRight))
                             (min (column bottomLeft) (column bottomRight))\<rfloor>);
          maxCol0 = toInt32 (real_of_int
                       \<lceil>max (max (column topLeft) (column topRight))
                             (max (column bottomLeft) (column bottomRight))\<rceil>);
          minRow0 = toInt32 (real_of_int
                       \<lfloor>min (min (row topLeft) (row topRight))
                             (min (row bottomLeft) (row bottomRight))\<rfloor>);
          maxRow0 = toInt32 (real_of_int
                       \<lceil>max (max (row topLeft) (row topRight))
                             (max (row bottomLeft) (row bottomRight))\<rceil>);
          minCol1 = wrap32 (minCol0 - padC);
          minRow1 = wrap32 (minRow0 - padR);
          maxCol1 = wrap32 (maxCol0 + padC);
          maxRow1 = wrap32 (maxRow0 + padR)
      in \<lparr>minCol = toInt32 (CLAMP (real_of_int minCol1) 0 gridSize),
          maxCol = toInt32 (CLAMP (real_of_int maxCol1) 0 gridSize),
          minRow = toInt32 (CLAMP (real_of_int minRow1) 0 gridSize),
          maxRow = toInt32 (CLAMP (real_of_int maxRow1) 0 gridSize)\<rparr>)"

definition visibleBounds :: "BaseURITileProvider \<Rightarrow> TileLayer \<Rightarrow> Bounds \<times> TileLayer" where
  "visibleBounds p s =
     (let bz = baseZoom s p;
          gridSize = pow2 (real_of_int bz)
      in case corner (0, 0) bz s of (topLeft, s1) \<Rightarrow>
         case corner (width s, 0) bz s1 of (topRight, s2) \<Rightarrow>
         case corner (0, height s) bz s2 of (bottomLeft, s3) \<Rightarrow>
         case corner (width s, height s) bz s3 of (bottomRight, s4) \<Rightarrow>
           (gridBounds topLeft topRight bottomLeft bottomRight
              (padColumn s) (padRow s) gridSize, s4))"


subsection \<open>getVisibleCoordinates: the tiles to draw and to request\<close>

text \<open>
  The walk over the ancestors, from zoom \<open>i\<close> down to the provider's minimum zoom, with
  the two sets \<^verbatim>\<open>coordinatesToDraw\<close> and \<^verbatim>\<open>requestedCoordinates\<close>; it stops at the first
  ancestor that the loader has.
\<close>

function walkAncestors ::
  "TileLoader \<Rightarrow> int \<Rightarrow> TileCoordinate \<Rightarrow> int \<Rightarrow>
   TileCoordinate list \<times> TileCoordinate list \<Rightarrow> TileCoordinate list \<times> TileCoordinate list" where
  "walkAncestors l mz coord i acc =
     (if mz \<le> i then
        (let parentCoord = getClamped (getFloored (zoomTo coord (real_of_int i))) in
         case getTile l parentCoord of
           None \<Rightarrow> walkAncestors l mz coord (i - 1) (fst acc, set_insert parentCoord (snd acc))
         | Some t \<Rightarrow> (set_insert parentCoord (fst acc), snd acc))
      else acc)"
  by pat_completeness auto
termination
  by (relation "measure (\<lambda>(l, mz, coord, i, acc). nat (i + 1 - mz))") auto

declare walkAncestors.simps [simp del]

definition visitCoord ::
  "TileLoader \<Rightarrow> int \<Rightarrow> int \<Rightarrow> int \<Rightarrow> int \<Rightarrow>
   TileCoordinate list \<times> TileCoordinate list \<Rightarrow> TileCoordinate list \<times> TileCoordinate list" where
  \<comment> \<open>the body of the two loops, for one column and one row\<close>
  "visitCoord l mz bz col rw acc =
     (let coord = TileCoordinate (real_of_int rw) (real_of_int col) (real_of_int bz) in
      case getTile l coord of
        None \<Rightarrow> walkAncestors l mz coord (c_trunc (zoom coord))
                  (fst acc, set_insert coord (snd acc))
      | Some t \<Rightarrow> (set_insert coord (fst acc), snd acc))"

definition collectVisible ::
  "TileLoader \<Rightarrow> int \<Rightarrow> int \<Rightarrow> Bounds \<Rightarrow> TileCoordinate list \<times> TileCoordinate list" where
  \<comment> \<open>the two loops; the result is \<^verbatim>\<open>(coordinatesToDraw, requestedCoordinates)\<close>\<close>
  "collectVisible l mz bz b =
     fold (\<lambda>col acc. fold (\<lambda>rw acc. visitCoord l mz bz col rw acc)
                           [minRow b..maxRow b - 1] acc)
          [minCol b..maxCol b - 1] ([], [])"

fun issueRequests :: "BaseURITileProvider \<Rightarrow> TileCoordinate list \<Rightarrow> TileLoader \<Rightarrow> TileLoader" where
  "issueRequests p [] l = l"
| "issueRequests p (c # cs) l =
     (case start l c (requestTile p c) of
        Inl ExistsException \<Rightarrow> issueRequests p cs l
      | Inr l' \<Rightarrow> issueRequests p cs l')"

definition getVisibleCoordinates :: "TileLayer \<Rightarrow> TileCoordinate list \<times> TileLayer" where
  "getVisibleCoordinates s =
     (case provider s of
        None \<Rightarrow>
          ([], ofLogError ''TileLayer::layerPointToTileCoordinate'' ''Provider is not defined.'' s)
      | Some p \<Rightarrow>
          (case visibleBounds p s of (b, s4) \<Rightarrow>
           case collectVisible (loader s4) (minZoom p) (baseZoom s p) b of
             (coordinatesToDraw, requestedCoordinates) \<Rightarrow>
               (let l1 = cancelQueued (loader s4);
                    tilesToRequest = std_sort (QueueSorter (center s4)) requestedCoordinates;
                    l2 = issueRequests p tilesToRequest l1
                in (coordinatesToDraw, s4\<lparr>loader := l2\<rparr>))))"


subsection \<open>draw\<close>

definition tileDraw :: "TileLayer \<Rightarrow> BaseURITileProvider \<Rightarrow> TileCoordinate \<Rightarrow> Tile \<Rightarrow> TileDraw" where
  \<comment> \<open>the position and the size at which \<^verbatim>\<open>draw\<close> puts the tile of \<open>coord\<close>\<close>
  "tileDraw s p coord t =
     (let scale = pow2 (zoom (center s) - zoom coord);
          tileSizeX = real_of_int (tileWidth p) * scale;
          tileSizeY = real_of_int (tileHeight p) * scale;
          centerX = width s * (1 / 2);
          centerY = height s * (1 / 2);
          theCoord = zoomTo (center s) (zoom coord)
      in \<lparr>drawnCoord = coord, drawnTile = t,
          tx = centerX + tileSizeX * (column coord - column theCoord),
          ty = centerY + tileSizeY * (row coord - row theCoord),
          tw = tileSizeX, th = tileSizeY\<rparr>)"

text \<open>
  The loop of \<^verbatim>\<open>draw\<close> over the coordinates it is given, in that order. A tile that the
  loader has is drawn; this reads the provider, and without one the program
  dereferences a null pointer.
\<close>

fun drawTiles :: "TileLayer \<Rightarrow> TileCoordinate list \<Rightarrow> TileDraw list \<Rightarrow> crash + TileDraw list" where
  "drawTiles s [] acc = Inr acc"
| "drawTiles s (coord # cs) acc =
     (case getTile (loader s) coord of
        None \<Rightarrow> drawTiles s cs acc
      | Some t \<Rightarrow>
          (case provider s of
             None \<Rightarrow> Inl NullProvider
           | Some p \<Rightarrow> drawTiles s cs (acc @ [tileDraw s p coord t])))"

definition refreshCoords :: "TileLayer \<Rightarrow> TileLayer" where
  \<comment> \<open>the first statement of \<^verbatim>\<open>draw\<close>\<close>
  "refreshCoords s =
     (if coordsDirty s then
        (case getVisibleCoordinates s of
           (coords, s') \<Rightarrow> s'\<lparr>visisbleCoords := coords, coordsDirty := False\<rparr>)
      else s)"

definition draw :: "real \<Rightarrow> real \<Rightarrow> TileLayer \<Rightarrow> crash + TileLayer" where
  \<comment> \<open>\<^verbatim>\<open>draw(float x, float y)\<close>; the set is iterated from \<^verbatim>\<open>rbegin()\<close> to \<^verbatim>\<open>rend()\<close>\<close>
  "draw x y s =
     (let s1 = refreshCoords s in
      case drawTiles s1 (rev (visisbleCoords s1)) [] of
        Inl e \<Rightarrow> Inl e
      | Inr drawn \<Rightarrow> Inr (s1\<lparr>fbo := drawn, screen := screen s1 @ [(x, y, drawn)]\<rparr>))"



subsection \<open>The local sets of getVisibleCoordinates, by name\<close>

definition coordinatesToDraw :: "TileLayer \<Rightarrow> BaseURITileProvider \<Rightarrow> TileCoordinate list" where
  "coordinatesToDraw s p =
     fst (collectVisible (loader s) (minZoom p) (baseZoom s p) (fst (visibleBounds p s)))"

definition requestedCoordinates :: "TileLayer \<Rightarrow> BaseURITileProvider \<Rightarrow> TileCoordinate list" where
  "requestedCoordinates s p =
     snd (collectVisible (loader s) (minZoom p) (baseZoom s p) (fst (visibleBounds p s)))"

definition parentAt :: "TileCoordinate \<Rightarrow> int \<Rightarrow> TileCoordinate" where
  \<comment> \<open>\<^verbatim>\<open>parentCoord\<close> in the round \<open>i\<close> of the walk over the ancestors of \<open>coord\<close>\<close>
  "parentAt coord i = getClamped (getFloored (zoomTo coord (real_of_int i)))"

definition lookedUp :: "int \<Rightarrow> int \<Rightarrow> int \<Rightarrow> int \<Rightarrow> TileCoordinate \<Rightarrow> bool" where
  \<comment> \<open>the coordinates that the body of the two loops can pass to \<^verbatim>\<open>getTile\<close> for one column
      and row: the coordinate itself and its ancestors down to the minimum zoom\<close>
  "lookedUp mz bz col rw c \<longleftrightarrow>
     c = TileCoordinate (real_of_int rw) (real_of_int col) (real_of_int bz) \<or>
     (\<exists>j. mz \<le> j \<and> j \<le> bz \<and>
          c = parentAt (TileCoordinate (real_of_int rw) (real_of_int col) (real_of_int bz)) j)"

definition inGrid :: "TileCoordinate \<Rightarrow> bool" where
  \<comment> \<open>a whole row and column inside the grid of the coordinate's zoom level\<close>
  "inGrid c \<longleftrightarrow>
     row c \<in> \<int> \<and> column c \<in> \<int> \<and>
     0 \<le> row c \<and> row c < pow2 (zoom c) \<and> 0 \<le> column c \<and> column c < pow2 (zoom c)"

definition wanted :: "TileLoader \<Rightarrow> TileCoordinate list \<Rightarrow> TileCoordinate set" where
  \<comment> \<open>the coordinates of a list that are neither in transfer nor cached\<close>
  "wanted l cs = {c \<in> set cs. c \<notin> set (active l) \<and> tiles l c = None}"

definition layerInv :: "TileLayer \<Rightarrow> bool" where
  \<comment> \<open>what every layer that the operations below can reach satisfies: without a provider
      the memoized set is empty\<close>
  "layerInv s \<longleftrightarrow> (provider s = None \<longrightarrow> visisbleCoords s = [])"


subsection \<open>The grid rectangle in the words of the specification\<close>

definition specBaseZoom :: "TileLayer \<Rightarrow> BaseURITileProvider \<Rightarrow> int" where
  \<comment> \<open>``round(center.zoom) clamped to [provider.minZoom, provider.maxZoom]''\<close>
  "specBaseZoom s p =
     (let r = c_round (zoom (center s))
      in if r < minZoom p then minZoom p else if maxZoom p < r then maxZoom p else r)"

definition viewportCorners :: "TileLayer \<Rightarrow> int \<Rightarrow> TileCoordinate list" where
  \<comment> \<open>``the four viewport corners mapped through layerPointToTileCoordinate and
      zoomTo(baseZoom)''\<close>
  "viewportCorners s bz =
     map (\<lambda>pt. zoomTo (fst (layerPointToTileCoordinate pt s)) (real_of_int bz))
         [(0, 0), (width s, 0), (0, height s), (width s, height s)]"

definition clampToGrid :: "int \<Rightarrow> int \<Rightarrow> int" where
  \<comment> \<open>``clamped to [0, 2^baseZoom]'', for a whole number: beyond the upper end it becomes the
      last whole number of the interval\<close>
  "clampToGrid bz v =
     (if v < 0 then 0
      else if pow2 (real_of_int bz) < real_of_int v then \<lfloor>pow2 (real_of_int bz)\<rfloor>
      else v)"

definition specBounds :: "TileLayer \<Rightarrow> BaseURITileProvider \<Rightarrow> Bounds" where
  \<comment> \<open>``the floor of the minimum and the ceil of the maximum column/row over the four
      viewport corners, each padded outward by the configured padding and then clamped''\<close>
  "specBounds s p =
     (let bz = specBaseZoom s p;
          corners = set (viewportCorners s bz)
      in \<lparr>minCol = clampToGrid bz (\<lfloor>Min (column ` corners)\<rfloor> - padColumn s),
          maxCol = clampToGrid bz (\<lceil>Max (column ` corners)\<rceil> + padColumn s),
          minRow = clampToGrid bz (\<lfloor>Min (row ` corners)\<rfloor> - padRow s),
          maxRow = clampToGrid bz (\<lceil>Max (row ` corners)\<rceil> + padRow s)\<rparr>)"

definition boundsFit :: "TileLayer \<Rightarrow> BaseURITileProvider \<Rightarrow> bool" where
  \<comment> \<open>the floor and the ceiling of the corners, and the padded bounds, are in the range of
      a 32-bit \<^verbatim>\<open>int\<close>\<close>
  "boundsFit s p =
     (let bz = specBaseZoom s p;
          corners = set (viewportCorners s bz)
      in int32 \<lfloor>Min (column ` corners)\<rfloor> \<and>
         int32 (\<lfloor>Min (column ` corners)\<rfloor> - padColumn s) \<and>
         int32 \<lceil>Max (column ` corners)\<rceil> \<and>
         int32 (\<lceil>Max (column ` corners)\<rceil> + padColumn s) \<and>
         int32 \<lfloor>Min (row ` corners)\<rfloor> \<and>
         int32 (\<lfloor>Min (row ` corners)\<rfloor> - padRow s) \<and>
         int32 \<lceil>Max (row ` corners)\<rceil> \<and>
         int32 (\<lceil>Max (row ` corners)\<rceil> + padRow s))"


section \<open>Example configurations\<close>

definition equirect :: "GeoCoordinate \<Rightarrow> TileCoordinate" where
  "equirect g =
     \<lparr>column = (longitude g + 180) / 360, row = (90 - latitude g) / 180, zoom = 0\<rparr>"

definition demoProvider :: BaseURITileProvider where
  "demoProvider =
     \<lparr>minZoom = 0, maxZoom = 18, tileWidth = 256, tileHeight = 256, geoToTile = equirect\<rparr>"

definition deepProvider :: BaseURITileProvider where
  \<comment> \<open>a provider whose pyramid starts at zoom 1\<close>
  "deepProvider =
     \<lparr>minZoom = 1, maxZoom = 18, tileWidth = 256, tileHeight = 256, geoToTile = equirect\<rparr>"

definition worldTile :: TileCoordinate where
  "worldTile = \<lparr>column = 0, row = 0, zoom = 0\<rparr>"

definition cornerTile :: TileCoordinate where
  "cornerTile = \<lparr>column = 0, row = 0, zoom = 1\<rparr>"

definition eastTile :: TileCoordinate where
  "eastTile = \<lparr>column = 1, row = 0, zoom = 1\<rparr>"

definition demoLayer :: "BaseURITileProvider \<Rightarrow> real \<Rightarrow> (TileCoordinate \<rightharpoonup> Tile) \<Rightarrow> TileLayer" where
  \<comment> \<open>a layer one tile high and \<open>w\<close> pixels wide, on the top row of zoom 1, with the given
      provider and cache\<close>
  "demoLayer p w cache =
     newTileLayer\<lparr>width := w, height := 256, provider := Some p,
                  loader := \<lparr>tiles = cache, queued = [], active = []\<rparr>,
                  center := \<lparr>column = w / 512, row = 1 / 2, zoom = 1\<rparr>\<rparr>"

definition farProvider :: BaseURITileProvider where
  \<comment> \<open>a provider with 41 zoom levels\<close>
  "farProvider =
     \<lparr>minZoom = 0, maxZoom = 40, tileWidth = 256, tileHeight = 256, geoToTile = equirect\<rparr>"

definition farLayer :: TileLayer where
  \<comment> \<open>a layer of one tile at zoom 40, centered on the cell in the middle of the world\<close>
  "farLayer =
     newTileLayer\<lparr>width := 256, height := 256, provider := Some farProvider,
                  center := \<lparr>column = 549755813888 + 1 / 2, row = 549755813888 + 1 / 2,
                             zoom = 40\<rparr>\<rparr>"

definition flatLayer :: "TileCoordinate \<Rightarrow> (TileCoordinate \<rightharpoonup> Tile) \<Rightarrow> TileLayer" where
  \<comment> \<open>a layer of width and height 0 with a provider, the given center and cache\<close>
  "flatLayer c cache =
     newTileLayer\<lparr>provider := Some demoProvider,
                  loader := \<lparr>tiles = cache, queued = [], active = []\<rparr>,
                  center := c\<rparr>"

definition busyLayer :: TileLayer where
  \<comment> \<open>a layer one tile wide with an empty cache, whose loader is transferring the tile of
      the only visible cell and has another request waiting\<close>
  "busyLayer = (demoLayer demoProvider 256 Map.empty)
     \<lparr>loader := \<lparr>tiles = Map.empty, queued = [eastTile], active = [cornerTile]\<rparr>\<rparr>"


section \<open>Numbers and coordinates\<close>

lemma pow2_pos: "0 < pow2 x"
  by (simp add: pow2_def)

lemma pow2_add: "pow2 (a + b) = pow2 a * pow2 b"
  by (simp add: pow2_def powr_add)

lemma pow2_0: "pow2 0 = 1"
  by (simp add: pow2_def)

lemma pow2_1: "pow2 1 = 2"
  by (simp add: pow2_def)

lemma pow2_m1: "pow2 (- 1) = 1 / 2"
  by (simp add: pow2_def)

lemma c_trunc_of_int: "c_trunc (real_of_int k) = k"
  by (simp add: c_trunc_def)

subsection \<open>The order of a set of coordinates\<close>

lemma tc_less_irrefl: "\<not> tc_less a a"
  by (simp add: tc_less_def)

lemma tc_less_trans: "tc_less a b \<Longrightarrow> tc_less b c \<Longrightarrow> tc_less a c"
  by (auto simp: tc_less_def)

lemma tc_less_total: "\<not> tc_less a b \<Longrightarrow> \<not> tc_less b a \<Longrightarrow> (a::TileCoordinate) = b"
  by (cases a, cases b) (auto simp: tc_less_def)

lemma tc_less_zoom: "tc_less a b \<Longrightarrow> zoom a \<le> zoom b"
  by (auto simp: tc_less_def)

lemma set_set_insert: "set (set_insert x xs) = insert x (set xs)"
  by (induction xs) (auto dest: tc_less_total)

lemma set_insert_idem: "set_insert x (set_insert x xs) = set_insert x xs"
  by (induction xs) (auto simp: tc_less_irrefl)

lemma sorted_set_insert: "sorted_wrt tc_less xs \<Longrightarrow> sorted_wrt tc_less (set_insert x xs)"
  by (induction xs) (auto simp: set_set_insert dest: tc_less_total intro: tc_less_trans)

subsection \<open>32-bit integers\<close>

lemma int32_toInt32: "int32 (toInt32 x)"
  by (simp add: toInt32_def int32_def)

lemma int32_wrap32: "int32 (wrap32 v)"
proof -
  have "0 \<le> (v + 2147483648) mod 4294967296" "(v + 2147483648) mod 4294967296 < 4294967296"
    by simp_all
  then show ?thesis unfolding int32_def wrap32_def by linarith
qed

lemma toInt32_of_int: "int32 v \<Longrightarrow> toInt32 (real_of_int v) = v"
  by (simp add: toInt32_def c_trunc_of_int)

lemma wrap32_id: "int32 v \<Longrightarrow> wrap32 v = v"
  by (simp add: wrap32_def int32_def)

lemma toInt32_int: "toInt32 (real_of_int k) = (if int32 k then k else - 2147483648)"
  by (simp add: toInt32_def c_trunc_of_int)

lemma toInt32_numeral:
  "toInt32 0 = 0" "toInt32 1 = 1"
  "toInt32 (numeral n) = (if int32 (numeral n) then numeral n else - 2147483648)"
  "toInt32 (- numeral n) = (if int32 (- numeral n) then - numeral n else - 2147483648)"
  using toInt32_int [of 0] toInt32_int [of 1] toInt32_int [of "numeral n"]
    toInt32_int [of "- numeral n"]
  by (simp_all add: int32_def)

lemma ceiling_half: "\<lceil>1 / 2 :: real\<rceil> = 1"
  by (simp add: ceiling_eq_iff)

text \<open>The definitions that evaluate the model on a concrete layer.\<close>

lemmas eval_defs =
  getVisibleCoordinates_def visibleBounds_def corner_def layerPointToTileCoordinate_def
  getCenter_def gridBounds_def baseZoom_def c_round_def CLAMP_def Let_def collectVisible_def
  visitCoord_def walkAncestors.simps TileCoordinate_def getTile_def demoLayer_def
  demoProvider_def deepProvider_def newTileLayer_def c_trunc_def zoomTo_def getFloored_def
  getClamped_def clampGrid_def pow2_0 pow2_1 pow2_m1 tc_less_def cancelQueued_def
  std_sort_def QueueSorter_def zoomDistance_def gridDistance_def start_def pending_def
  requestTile_def worldTile_def cornerTile_def eastTile_def draw_def refreshCoords_def
  tileDraw_def upto.simps coordinatesToDraw_def requestedCoordinates_def ofLogError_def
  flatLayer_def int32_def toInt32_numeral wrap32_def farProvider_def farLayer_def
  ceiling_half


text \<open>
  C9. For every coordinate \<open>c\<close> and all zoom levels \<open>z1\<close> and \<open>z2\<close>, rescaling to \<open>z1\<close> and
  then to \<open>z2\<close> is rescaling to \<open>z2\<close>: \<open>zoomTo\<close> is path-independent.
\<close>

theorem zoomTo_path_independent: "zoomTo (zoomTo c z1) z2 = zoomTo c z2"
proof -
  have "pow2 (z1 - zoom c) * pow2 (z2 - z1) = pow2 (z2 - zoom c)"
    using pow2_add [of "z1 - zoom c" "z2 - z1"] by simp
  then have "\<And>v::real. v * pow2 (z1 - zoom c) * pow2 (z2 - z1) = v * pow2 (z2 - zoom c)"
    by (simp add: mult.assoc)
  then show ?thesis
    by (simp add: zoomTo_def)
qed

section \<open>The operations of the layer\<close>

lemma corner_some:
  "provider s = Some p \<Longrightarrow> corner pt bz s =
     (zoomTo ((center s)\<lparr>column := column (center s) + (fst pt - width s / 2) / real_of_int (tileWidth p),
                         row := row (center s) + (snd pt - height s / 2) / real_of_int (tileHeight p)\<rparr>) (real_of_int bz), s)"
  by (simp add: corner_def layerPointToTileCoordinate_def getCenter_def Let_def)

lemma visibleBounds_state: "provider s = Some p \<Longrightarrow> snd (visibleBounds p s) = s"
  by (simp add: visibleBounds_def corner_some Let_def)

lemma getVisibleCoordinates_some:
  "provider s = Some p \<Longrightarrow>
   getVisibleCoordinates s =
     (coordinatesToDraw s p,
      s\<lparr>loader := issueRequests p (std_sort (QueueSorter (center s)) (requestedCoordinates s p))
                    (cancelQueued (loader s))\<rparr>)"
proof -
  assume p: "provider s = Some p"
  obtain b s4 where vb: "visibleBounds p s = (b, s4)" by (cases "visibleBounds p s")
  with visibleBounds_state [OF p] have s4: "s4 = s" by simp
  show ?thesis
    by (simp add: getVisibleCoordinates_def coordinatesToDraw_def requestedCoordinates_def
        Let_def p vb s4 split: prod.splits)
qed

lemma getVisibleCoordinates_none:
  "provider s = None \<Longrightarrow>
   getVisibleCoordinates s =
     ([], ofLogError ''TileLayer::layerPointToTileCoordinate'' ''Provider is not defined.'' s)"
  by (simp add: getVisibleCoordinates_def)

lemma start_cases:
  "start l c h = Inl ExistsException \<and> pending l c \<or>
   start l c h = Inr l \<and> \<not> pending l c \<and> tiles l c \<noteq> None \<or>
   start l c h = Inr (l\<lparr>queued := queued l @ [c]\<rparr>) \<and> \<not> pending l c \<and> tiles l c = None"
  by (simp add: start_def)

lemma issueRequests_frame:
  "tiles (issueRequests p cs l) = tiles l \<and> active (issueRequests p cs l) = active l"
proof (induction cs arbitrary: l)
  case Nil
  show ?case by simp
next
  case (Cons c cs)
  show ?case
    using start_cases [of l c "requestTile p c"] Cons.IH by (auto split: loader_error.splits)
qed

lemma drawTiles_provider:
  "provider s = Some p \<Longrightarrow> \<exists>ds. drawTiles s cs acc = Inr ds"
  by (induction cs arbitrary: acc) (auto split: option.splits)


lemma refresh_fields:
  "center (refreshCoords s) = center s \<and> width (refreshCoords s) = width s \<and>
   height (refreshCoords s) = height s \<and> padColumn (refreshCoords s) = padColumn s \<and>
   padRow (refreshCoords s) = padRow s \<and> provider (refreshCoords s) = provider s \<and>
   fbo (refreshCoords s) = fbo s \<and> screen (refreshCoords s) = screen s \<and>
   tiles (loader (refreshCoords s)) = tiles (loader s) \<and>
   active (loader (refreshCoords s)) = active (loader s) \<and>
   \<not> coordsDirty (refreshCoords s)"
proof (cases "provider s")
  case None
  then show ?thesis
    by (simp add: refreshCoords_def getVisibleCoordinates_none ofLogError_def)
next
  case (Some p)
  then show ?thesis
    by (simp add: refreshCoords_def getVisibleCoordinates_some issueRequests_frame cancelQueued_def)
qed

lemma refresh_inv: "layerInv s \<Longrightarrow> layerInv (refreshCoords s)"
  using refresh_fields [of s]
  by (cases "provider s")
     (auto simp: layerInv_def refreshCoords_def getVisibleCoordinates_none ofLogError_def)

lemma draw_total:
  assumes "layerInv s"
  shows "\<exists>drawn. draw x y s =
           Inr ((refreshCoords s)\<lparr>fbo := drawn, screen := screen (refreshCoords s) @ [(x, y, drawn)]\<rparr>)"
proof (cases "provider s")
  case None
  with assms refresh_inv [of s] refresh_fields [of s]
  have "visisbleCoords (refreshCoords s) = []" by (simp add: layerInv_def)
  then have "draw x y s =
      Inr ((refreshCoords s)\<lparr>fbo := [], screen := screen (refreshCoords s) @ [(x, y, [])]\<rparr>)"
    by (simp add: draw_def Let_def)
  then show ?thesis by blast
next
  case (Some p)
  with refresh_fields [of s] have "provider (refreshCoords s) = Some p" by simp
  from drawTiles_provider [OF this, of "rev (visisbleCoords (refreshCoords s))" "[]"]
  show ?thesis by (auto simp: draw_def Let_def)
qed


section \<open>The loops of getVisibleCoordinates\<close>

text \<open>
  An invariant of the two sets holds at the end of the loops when it holds for the empty
  sets and every insertion that the loops can make keeps it.
\<close>

lemma walkAncestors_unfold:
  "walkAncestors l mz coord i acc =
     (if mz \<le> i then
        (case getTile l (parentAt coord i) of
           None \<Rightarrow> walkAncestors l mz coord (i - 1) (fst acc, set_insert (parentAt coord i) (snd acc))
         | Some t \<Rightarrow> (set_insert (parentAt coord i) (fst acc), snd acc))
      else acc)"
  unfolding parentAt_def by (subst walkAncestors.simps) (simp add: Let_def)

lemma walkAncestors_inv:
  assumes "I acc"
    and "\<And>a j t. I a \<Longrightarrow> mz \<le> j \<Longrightarrow> j \<le> i \<Longrightarrow> getTile l (parentAt coord j) = Some t \<Longrightarrow>
           I (set_insert (parentAt coord j) (fst a), snd a)"
    and "\<And>a j. I a \<Longrightarrow> mz \<le> j \<Longrightarrow> j \<le> i \<Longrightarrow> getTile l (parentAt coord j) = None \<Longrightarrow>
           I (fst a, set_insert (parentAt coord j) (snd a))"
  shows "I (walkAncestors l mz coord i acc)"
  using assms
proof (induction l mz coord i acc rule: walkAncestors.induct)
  case (1 l mz coord i acc)
  show ?case
  proof (cases "mz \<le> i")
    case False
    then show ?thesis using "1.prems"(1) by (subst walkAncestors_unfold) simp
  next
    case True
    show ?thesis
    proof (cases "getTile l (parentAt coord i)")
      case (Some t)
      with True "1.prems"(1) "1.prems"(2) [of acc i t] show ?thesis
        by (subst walkAncestors_unfold) simp
    next
      case None
      have step: "I (fst acc, set_insert (parentAt coord i) (snd acc))"
        using "1.prems"(3) [of acc i] "1.prems"(1) True None by simp
      have "I (walkAncestors l mz coord (i - 1) (fst acc, set_insert (parentAt coord i) (snd acc)))"
      proof (rule "1.IH" [OF True _ _ step])
        show "parentAt coord i = getClamped (getFloored (zoomTo coord (real_of_int i)))"
          by (simp add: parentAt_def)
        show "getTile l (parentAt coord i) = None" by (rule None)
      next
        fix a j t
        assume "I a" "mz \<le> j" "j \<le> i - 1" "getTile l (parentAt coord j) = Some t"
        then show "I (set_insert (parentAt coord j) (fst a), snd a)"
          using "1.prems"(2) [of a j t] by simp
      next
        fix a j
        assume "I a" "mz \<le> j" "j \<le> i - 1" "getTile l (parentAt coord j) = None"
        then show "I (fst a, set_insert (parentAt coord j) (snd a))"
          using "1.prems"(3) [of a j] by simp
      qed
      with True None show ?thesis by (subst walkAncestors_unfold) simp
    qed
  qed
qed


lemma visitCoord_inv:
  assumes "I acc"
    and "\<And>a c t. I a \<Longrightarrow> lookedUp mz bz col rw c \<Longrightarrow> getTile l c = Some t \<Longrightarrow>
           I (set_insert c (fst a), snd a)"
    and "\<And>a c. I a \<Longrightarrow> lookedUp mz bz col rw c \<Longrightarrow> getTile l c = None \<Longrightarrow>
           I (fst a, set_insert c (snd a))"
  shows "I (visitCoord l mz bz col rw acc)"
proof -
  let ?coord = "TileCoordinate (real_of_int rw) (real_of_int col) (real_of_int bz)"
  have self: "lookedUp mz bz col rw ?coord" by (simp add: lookedUp_def)
  have anc: "lookedUp mz bz col rw (parentAt ?coord j)" if "mz \<le> j" "j \<le> bz" for j
    using that by (auto simp: lookedUp_def)
  have z: "c_trunc (zoom ?coord) = bz" by (simp add: TileCoordinate_def c_trunc_of_int)
  show ?thesis
  proof (cases "getTile l ?coord")
    case (Some t)
    with assms(1) assms(2) [OF _ self] show ?thesis by (simp add: visitCoord_def Let_def)
  next
    case None
    have "I (fst acc, set_insert ?coord (snd acc))"
      using assms(1) assms(3) [OF _ self] None by simp
    then have "I (walkAncestors l mz ?coord bz (fst acc, set_insert ?coord (snd acc)))"
    proof (rule walkAncestors_inv [of I])
      fix a j t
      assume "I a" "mz \<le> j" "j \<le> bz" "getTile l (parentAt ?coord j) = Some t"
      then show "I (set_insert (parentAt ?coord j) (fst a), snd a)"
        using assms(2) [of a "parentAt ?coord j" t] anc by simp
    next
      fix a j
      assume "I a" "mz \<le> j" "j \<le> bz" "getTile l (parentAt ?coord j) = None"
      then show "I (fst a, set_insert (parentAt ?coord j) (snd a))"
        using assms(3) [of a "parentAt ?coord j"] anc by simp
    qed
    with None z show ?thesis by (simp add: visitCoord_def Let_def)
  qed
qed

lemma fold_inv:
  "I acc \<Longrightarrow> (\<And>x a. x \<in> set xs \<Longrightarrow> I a \<Longrightarrow> I (f x a)) \<Longrightarrow> I (fold f xs acc)"
  by (induction xs arbitrary: acc) simp_all

lemma collectVisible_inv:
  assumes "I ([], [])"
    and "\<And>a c t col rw. I a \<Longrightarrow> minCol b \<le> col \<Longrightarrow> col < maxCol b \<Longrightarrow>
           minRow b \<le> rw \<Longrightarrow> rw < maxRow b \<Longrightarrow> lookedUp mz bz col rw c \<Longrightarrow>
           getTile l c = Some t \<Longrightarrow> I (set_insert c (fst a), snd a)"
    and "\<And>a c col rw. I a \<Longrightarrow> minCol b \<le> col \<Longrightarrow> col < maxCol b \<Longrightarrow>
           minRow b \<le> rw \<Longrightarrow> rw < maxRow b \<Longrightarrow> lookedUp mz bz col rw c \<Longrightarrow>
           getTile l c = None \<Longrightarrow> I (fst a, set_insert c (snd a))"
  shows "I (collectVisible l mz bz b)"
  unfolding collectVisible_def
proof (rule fold_inv [of I, OF assms(1)])
  fix col a
  assume col: "col \<in> set [minCol b..maxCol b - 1]" and a: "I a"
  show "I (fold (\<lambda>rw acc. visitCoord l mz bz col rw acc) [minRow b..maxRow b - 1] a)"
  proof (rule fold_inv [of I, OF a])
    fix rw a'
    assume rw: "rw \<in> set [minRow b..maxRow b - 1]" and a': "I a'"
    show "I (visitCoord l mz bz col rw a')"
    proof (rule visitCoord_inv [of I, OF a'])
      fix a c t
      assume "I a" "lookedUp mz bz col rw c" "getTile l c = Some t"
      then show "I (set_insert c (fst a), snd a)"
        using assms(2) [of a col rw c t] col rw by simp
    next
      fix a c
      assume "I a" "lookedUp mz bz col rw c" "getTile l c = None"
      then show "I (fst a, set_insert c (snd a))"
        using assms(3) [of a col rw c] col rw by simp
    qed
  qed
qed


subsection \<open>The grid and the parents\<close>

lemma toInt32_CLAMP:
  assumes "0 < g" and "int32 v"
  shows "toInt32 (CLAMP (real_of_int v) 0 g) =
           (if v < 0 then 0 else if g < real_of_int v then \<lfloor>g\<rfloor> else v)"
proof -
  consider "v < 0" | "0 \<le> v" "g < real_of_int v" | "0 \<le> v" "\<not> g < real_of_int v"
    by linarith
  then show ?thesis
  proof cases
    case 1
    then show ?thesis by (simp add: CLAMP_def toInt32_def c_trunc_def int32_def)
  next
    case 2
    from 2(2) have "\<lfloor>g\<rfloor> < v" by linarith
    with assms(2) have "\<lfloor>g\<rfloor> < 2147483648" unfolding int32_def by linarith
    moreover from assms(1) have "0 \<le> \<lfloor>g\<rfloor>" by simp
    then have "- 2147483648 \<le> \<lfloor>g\<rfloor>" by linarith
    ultimately have "int32 \<lfloor>g\<rfloor>" unfolding int32_def by (rule conjI [rotated])
    with 2 assms(1) show ?thesis by (simp add: CLAMP_def toInt32_def c_trunc_def)
  next
    case 3
    with assms(2) show ?thesis by (simp add: CLAMP_def toInt32_of_int)
  qed
qed

lemma clamp_trunc_range:
  assumes "0 < g" and "int32 v"
  shows "0 \<le> toInt32 (CLAMP (real_of_int v) 0 g) \<and>
         real_of_int (toInt32 (CLAMP (real_of_int v) 0 g)) \<le> g"
proof -
  from assms(1) have "0 \<le> \<lfloor>g\<rfloor>" "real_of_int \<lfloor>g\<rfloor> \<le> g" by simp_all
  then show ?thesis using assms(1) by (simp add: toInt32_CLAMP [OF assms])
qed

lemma gridBounds_range:
  assumes "0 < g"
  shows "0 \<le> minCol (gridBounds a b c d pc pr g) \<and> real_of_int (maxCol (gridBounds a b c d pc pr g)) \<le> g \<and>
         0 \<le> minRow (gridBounds a b c d pc pr g) \<and> real_of_int (maxRow (gridBounds a b c d pc pr g)) \<le> g"
  using clamp_trunc_range [OF assms int32_wrap32] by (simp add: gridBounds_def Let_def)

lemma visibleBounds_range:
  "0 \<le> minCol (fst (visibleBounds p s)) \<and>
   real_of_int (maxCol (fst (visibleBounds p s))) \<le> pow2 (real_of_int (baseZoom s p)) \<and>
   0 \<le> minRow (fst (visibleBounds p s)) \<and>
   real_of_int (maxRow (fst (visibleBounds p s))) \<le> pow2 (real_of_int (baseZoom s p))"
  using gridBounds_range [OF pow2_pos]
  by (simp add: visibleBounds_def Let_def split: prod.splits)

lemma clampGrid_range: "0 < g \<Longrightarrow> 0 \<le> clampGrid g v \<and> clampGrid g v < g"
  by (auto simp: clampGrid_def) linarith+

lemma clampGrid_whole: "v \<in> \<int> \<Longrightarrow> clampGrid g v \<in> \<int>"
  by (simp add: clampGrid_def)

lemma c_trunc_whole: "x \<in> \<int> \<Longrightarrow> real_of_int (c_trunc x) = x"
  by (auto elim: Ints_cases simp: c_trunc_of_int)

lemma clampGrid_inside: "0 \<le> v \<Longrightarrow> v < g \<Longrightarrow> clampGrid g v = v"
  by (simp add: clampGrid_def)

lemma inGrid_parentAt: "inGrid (parentAt c j)"
  using clampGrid_range [OF pow2_pos]
  by (simp add: inGrid_def parentAt_def getClamped_def getFloored_def zoomTo_def clampGrid_whole)

lemma inGrid_base:
  "0 \<le> col \<Longrightarrow> real_of_int col < pow2 (real_of_int bz) \<Longrightarrow>
   0 \<le> rw \<Longrightarrow> real_of_int rw < pow2 (real_of_int bz) \<Longrightarrow>
   inGrid (TileCoordinate (real_of_int rw) (real_of_int col) (real_of_int bz))"
  by (simp add: inGrid_def TileCoordinate_def)

lemma parentAt_self:
  "inGrid c \<Longrightarrow> zoom c = real_of_int bz \<Longrightarrow> parentAt c bz = c"
  by (cases c) (simp add: inGrid_def parentAt_def getClamped_def getFloored_def zoomTo_def pow2_0
      c_trunc_whole clampGrid_inside)

lemma half_whole: "0 \<le> k \<Longrightarrow> c_trunc (real_of_int k / 2) = k div 2"
proof -
  have "\<lfloor>real_of_int k / real_of_int 2\<rfloor> = k div 2" by (rule floor_divide_of_int_eq)
  then show "0 \<le> k \<Longrightarrow> c_trunc (real_of_int k / 2) = k div 2"
    by (simp add: c_trunc_def)
qed

lemma pow2_pred: "pow2 x = 2 * pow2 (x - 1)"
  using pow2_add [of "x - 1" 1] by (simp add: pow2_1)

lemma half_inside:
  assumes "0 \<le> k" "real_of_int k < pow2 (real_of_int bz)"
  shows "clampGrid (pow2 (real_of_int bz - 1)) (real_of_int (k div 2)) = real_of_int (k div 2)"
proof -
  have "real_of_int (k div 2) \<le> real_of_int k / 2"
    by (metis floor_divide_of_int_eq of_int_floor_le of_int_numeral)
  with assms pow2_pred [of "real_of_int bz"] have "real_of_int (k div 2) < pow2 (real_of_int bz - 1)"
    by simp
  moreover from assms have "0 \<le> real_of_int (k div 2)" by simp
  ultimately show ?thesis by (simp add: clampGrid_inside)
qed

lemma parentAt_parent:
  assumes "0 \<le> col" "real_of_int col < pow2 (real_of_int bz)"
    "0 \<le> rw" "real_of_int rw < pow2 (real_of_int bz)"
  shows "parentAt (TileCoordinate (real_of_int rw) (real_of_int col) (real_of_int bz)) (bz - 1) =
           TileCoordinate (real_of_int (rw div 2)) (real_of_int (col div 2)) (real_of_int (bz - 1))"
  using half_inside [OF assms(1,2)] half_inside [OF assms(3,4)] assms(1,3)
  by (simp add: parentAt_def TileCoordinate_def getClamped_def getFloored_def zoomTo_def
      pow2_m1 half_whole)


lemma lookedUp_inGrid:
  assumes "0 \<le> col" "real_of_int col < pow2 (real_of_int bz)"
    "0 \<le> rw" "real_of_int rw < pow2 (real_of_int bz)" "lookedUp mz bz col rw c"
  shows "inGrid c"
  using assms inGrid_base [of col bz rw] inGrid_parentAt by (auto simp: lookedUp_def)

lemma visible_lookedUp_inGrid:
  assumes "minCol (fst (visibleBounds p s)) \<le> col" "col < maxCol (fst (visibleBounds p s))"
    "minRow (fst (visibleBounds p s)) \<le> rw" "rw < maxRow (fst (visibleBounds p s))"
    "lookedUp mz (baseZoom s p) col rw c"
  shows "inGrid c"
proof (rule lookedUp_inGrid [OF _ _ _ _ assms(5)])
  from visibleBounds_range [of p s] assms(1-4)
  show "0 \<le> col" "real_of_int col < pow2 (real_of_int (baseZoom s p))"
    "0 \<le> rw" "real_of_int rw < pow2 (real_of_int (baseZoom s p))"
    by linarith+
qed

lemma collected_inGrid:
  "\<forall>c \<in> set (coordinatesToDraw s p) \<union> set (requestedCoordinates s p). inGrid c"
proof -
  let ?I = "\<lambda>acc. \<forall>c \<in> set (fst acc) \<union> set (snd acc). inGrid c"
  have "?I (collectVisible (loader s) (minZoom p) (baseZoom s p) (fst (visibleBounds p s)))"
  proof (rule collectVisible_inv [of ?I])
    show "?I ([], [])" by simp
  next
    fix a c t col rw
    assume "?I a" "minCol (fst (visibleBounds p s)) \<le> col" "col < maxCol (fst (visibleBounds p s))"
      "minRow (fst (visibleBounds p s)) \<le> rw" "rw < maxRow (fst (visibleBounds p s))"
      "lookedUp (minZoom p) (baseZoom s p) col rw c"
    then show "?I (set_insert c (fst a), snd a)"
      using visible_lookedUp_inGrid [of p s col rw "minZoom p" c] by (auto simp: set_set_insert)
  next
    fix a c col rw
    assume "?I a" "minCol (fst (visibleBounds p s)) \<le> col" "col < maxCol (fst (visibleBounds p s))"
      "minRow (fst (visibleBounds p s)) \<le> rw" "rw < maxRow (fst (visibleBounds p s))"
      "lookedUp (minZoom p) (baseZoom s p) col rw c"
    then show "?I (fst a, set_insert c (snd a))"
      using visible_lookedUp_inGrid [of p s col rw "minZoom p" c] by (auto simp: set_set_insert)
  qed
  then show ?thesis by (simp add: coordinatesToDraw_def requestedCoordinates_def)
qed

lemma collected_sorted:
  "sorted_wrt tc_less (fst (collectVisible l mz bz b)) \<and>
   sorted_wrt tc_less (snd (collectVisible l mz bz b))"
  by (rule collectVisible_inv
      [of "\<lambda>acc. sorted_wrt tc_less (fst acc) \<and> sorted_wrt tc_less (snd acc)"])
     (simp_all add: sorted_set_insert)

lemma collected_cache:
  "(\<forall>c \<in> set (fst (collectVisible l mz bz b)). getTile l c \<noteq> None) \<and>
   (\<forall>c \<in> set (snd (collectVisible l mz bz b)). getTile l c = None)"
  by (rule collectVisible_inv
      [of "\<lambda>acc. (\<forall>c \<in> set (fst acc). getTile l c \<noteq> None) \<and>
                   (\<forall>c \<in> set (snd acc). getTile l c = None)"])
     (simp_all add: set_set_insert)

lemma visitCoord_grows:
  assumes "x \<in> set (fst a)" "y \<in> set (snd a)"
  shows "x \<in> set (fst (visitCoord l mz bz col rw a)) \<and> y \<in> set (snd (visitCoord l mz bz col rw a))"
  by (rule visitCoord_inv [of "\<lambda>acc. x \<in> set (fst acc) \<and> y \<in> set (snd acc)"])
     (simp_all add: assms set_set_insert)

lemma fold_reach:
  assumes "x \<in> set xs" and "\<And>a. P (f x a)" and "\<And>y a. P a \<Longrightarrow> P (f y a)"
  shows "P (fold f xs acc)"
  using assms(1)
proof (induction xs arbitrary: acc)
  case Nil
  then show ?case by simp
next
  case (Cons y ys)
  show ?case
  proof (cases "x = y")
    case True
    have "P (f y acc)" using assms(2) True by simp
    then have "P (fold f ys (f y acc))" by (rule fold_inv [of P]) (rule assms(3))
    then show ?thesis by simp
  next
    case False
    with Cons.prems have "x \<in> set ys" by simp
    from Cons.IH [OF this] show ?thesis by simp
  qed
qed

lemma visitCoord_cached_parent:
  assumes "0 \<le> col" "real_of_int col < pow2 (real_of_int bz)"
    "0 \<le> rw" "real_of_int rw < pow2 (real_of_int bz)"
    and "getTile l (TileCoordinate (real_of_int rw) (real_of_int col) (real_of_int bz)) = None"
    and "getTile l (TileCoordinate (real_of_int (rw div 2)) (real_of_int (col div 2))
                     (real_of_int (bz - 1))) = Some t"
    and "mz < bz"
  shows "visitCoord l mz bz col rw acc =
     (set_insert (TileCoordinate (real_of_int (rw div 2)) (real_of_int (col div 2))
                    (real_of_int (bz - 1))) (fst acc),
      set_insert (TileCoordinate (real_of_int rw) (real_of_int col) (real_of_int bz)) (snd acc))"
proof -
  let ?coord = "TileCoordinate (real_of_int rw) (real_of_int col) (real_of_int bz)"
  let ?parent = "TileCoordinate (real_of_int (rw div 2)) (real_of_int (col div 2))
                    (real_of_int (bz - 1))"
  have g: "inGrid ?coord" using assms(1-4) by (rule inGrid_base)
  have z: "zoom ?coord = real_of_int bz" by (simp add: TileCoordinate_def)
  have p0: "parentAt ?coord bz = ?coord" using g z by (rule parentAt_self)
  have p1: "parentAt ?coord (bz - 1) = ?parent" using assms(1-4) by (rule parentAt_parent)
  have "walkAncestors l mz ?coord bz (fst acc, set_insert ?coord (snd acc)) =
        walkAncestors l mz ?coord (bz - 1) (fst acc, set_insert ?coord (snd acc))"
    using assms(5,7) p0 by (subst walkAncestors_unfold) (simp add: set_insert_idem)
  also have "\<dots> = (set_insert ?parent (fst acc), set_insert ?coord (snd acc))"
    using assms(6,7) p1 by (subst walkAncestors_unfold) simp
  finally show ?thesis
    using assms(5) z by (simp add: visitCoord_def Let_def c_trunc_of_int)
qed


subsection \<open>A missing tile whose parent is cached\<close>

lemma in_upto: "lo \<le> k \<Longrightarrow> k < hi \<Longrightarrow> k \<in> set [lo..hi - 1]"
  by simp

lemma collected_cached_parent:
  assumes "minCol b \<le> col" "col < maxCol b" "minRow b \<le> rw" "rw < maxRow b"
    and "0 \<le> minCol b" "real_of_int (maxCol b) \<le> pow2 (real_of_int bz)"
    and "0 \<le> minRow b" "real_of_int (maxRow b) \<le> pow2 (real_of_int bz)"
    and "getTile l (TileCoordinate (real_of_int rw) (real_of_int col) (real_of_int bz)) = None"
    and "getTile l (TileCoordinate (real_of_int (rw div 2)) (real_of_int (col div 2))
                     (real_of_int (bz - 1))) = Some t"
    and "mz < bz"
  shows "TileCoordinate (real_of_int (rw div 2)) (real_of_int (col div 2)) (real_of_int (bz - 1))
           \<in> set (fst (collectVisible l mz bz b)) \<and>
         TileCoordinate (real_of_int rw) (real_of_int col) (real_of_int bz)
           \<in> set (snd (collectVisible l mz bz b))"
proof -
  define coord where "coord = TileCoordinate (real_of_int rw) (real_of_int col) (real_of_int bz)"
  define parent where
    "parent = TileCoordinate (real_of_int (rw div 2)) (real_of_int (col div 2))
                (real_of_int (bz - 1))"
  define P where "P = (\<lambda>acc. parent \<in> set (fst acc) \<and> coord \<in> set (snd acc))"
  have range: "0 \<le> col" "real_of_int col < pow2 (real_of_int bz)"
    "0 \<le> rw" "real_of_int rw < pow2 (real_of_int bz)"
    using assms(1-8) by linarith+
  have hit: "P (visitCoord l mz bz col rw a)" for a
    unfolding P_def coord_def parent_def
    by (subst (1 2) visitCoord_cached_parent [OF range assms(9,10,11)])
       (simp add: set_set_insert)
  have keep: "P a \<Longrightarrow> P (visitCoord l mz bz c r a)" for a c r
    unfolding P_def using visitCoord_grows [of parent a coord l mz bz c r] by blast
  have row_keep: "P a \<Longrightarrow> P (fold (\<lambda>r acc. visitCoord l mz bz c r acc) rs a)" for a c rs
    by (rule fold_inv [of P], assumption, rule keep)
  have "rw \<in> set [minRow b..maxRow b - 1]" using assms(3,4) by simp
  then have row_hit:
    "P (fold (\<lambda>r acc. visitCoord l mz bz col r acc) [minRow b..maxRow b - 1] a)" for a
    by (rule fold_reach [of rw _ P]) (rule hit, rule keep)
  have "col \<in> set [minCol b..maxCol b - 1]" using assms(1,2) by simp
  then have "P (fold (\<lambda>c acc. fold (\<lambda>r acc. visitCoord l mz bz c r acc)
                                    [minRow b..maxRow b - 1] acc)
              [minCol b..maxCol b - 1] ([], []))"
    by (rule fold_reach [of col _ P]) (rule row_hit, rule row_keep)
  then show ?thesis by (simp add: collectVisible_def P_def coord_def parent_def)
qed

text \<open>
  C1, amended. Let \<open>(rw, col)\<close> be a cell of the iterated rectangle whose tile at the base
  zoom is not cached while the tile of its parent cell \<open>(rw div 2, col div 2)\<close> one level
  up is, and let that level be no lower than the provider's minimum zoom. Then the body of
  the loops adds to the two sets exactly the parent (to draw) and the cell itself (to
  request): the walk over the ancestors stops at the parent, and the only coordinate it
  met before, the cell itself, is requested. At the end the parent is in the set that
  \<open>getVisibleCoordinates\<close> returns and the cell is in the request set.
\<close>

theorem cached_parent_stands_in:
  assumes "provider s = Some p"
    and "minZoom p < baseZoom s p"
    and "minCol (fst (visibleBounds p s)) \<le> col" "col < maxCol (fst (visibleBounds p s))"
    and "minRow (fst (visibleBounds p s)) \<le> rw" "rw < maxRow (fst (visibleBounds p s))"
    and "getTile (loader s)
           (TileCoordinate (real_of_int rw) (real_of_int col) (real_of_int (baseZoom s p))) = None"
    and "getTile (loader s)
           (TileCoordinate (real_of_int (rw div 2)) (real_of_int (col div 2))
              (real_of_int (baseZoom s p - 1))) = Some t"
  shows "visitCoord (loader s) (minZoom p) (baseZoom s p) col rw acc =
           (set_insert (TileCoordinate (real_of_int (rw div 2)) (real_of_int (col div 2))
                          (real_of_int (baseZoom s p - 1))) (fst acc),
            set_insert (TileCoordinate (real_of_int rw) (real_of_int col)
                          (real_of_int (baseZoom s p))) (snd acc)) \<and>
         TileCoordinate (real_of_int (rw div 2)) (real_of_int (col div 2))
             (real_of_int (baseZoom s p - 1))
           \<in> set (fst (getVisibleCoordinates s)) \<and>
         TileCoordinate (real_of_int rw) (real_of_int col) (real_of_int (baseZoom s p))
           \<in> set (requestedCoordinates s p)"
proof -
  note r = visibleBounds_range [of p s]
  have range: "0 \<le> col" "real_of_int col < pow2 (real_of_int (baseZoom s p))"
    "0 \<le> rw" "real_of_int rw < pow2 (real_of_int (baseZoom s p))"
    using r assms(3-6) by linarith+
  have one: "visitCoord (loader s) (minZoom p) (baseZoom s p) col rw acc =
           (set_insert (TileCoordinate (real_of_int (rw div 2)) (real_of_int (col div 2))
                          (real_of_int (baseZoom s p - 1))) (fst acc),
            set_insert (TileCoordinate (real_of_int rw) (real_of_int col)
                          (real_of_int (baseZoom s p))) (snd acc))"
    using range assms(7,8,2) by (rule visitCoord_cached_parent)
  have all: "TileCoordinate (real_of_int (rw div 2)) (real_of_int (col div 2))
             (real_of_int (baseZoom s p - 1))
           \<in> set (coordinatesToDraw s p) \<and>
         TileCoordinate (real_of_int rw) (real_of_int col) (real_of_int (baseZoom s p))
           \<in> set (requestedCoordinates s p)"
    unfolding coordinatesToDraw_def requestedCoordinates_def
    using assms(3-6) r assms(7,8,2)
    by (intro collected_cached_parent) simp_all
  from one all show ?thesis
    by (simp add: getVisibleCoordinates_some [OF assms(1)])
qed

text \<open>
  C1, amended, on a layer one tile wide at zoom 1 whose cache holds the world tile only:
  the cell \<open>(0, 0)\<close> is requested and the world tile stands in for it.
\<close>

theorem cached_parent_stands_in_witness:
  "provider (demoLayer demoProvider 256 [worldTile \<mapsto> Tile 0]) = Some demoProvider \<and>
   minZoom demoProvider < baseZoom (demoLayer demoProvider 256 [worldTile \<mapsto> Tile 0]) demoProvider \<and>
   fst (visibleBounds demoProvider (demoLayer demoProvider 256 [worldTile \<mapsto> Tile 0])) =
     \<lparr>minCol = 0, maxCol = 1, minRow = 0, maxRow = 1\<rparr> \<and>
   getTile (loader (demoLayer demoProvider 256 [worldTile \<mapsto> Tile 0])) cornerTile = None \<and>
   getTile (loader (demoLayer demoProvider 256 [worldTile \<mapsto> Tile 0])) worldTile = Some (Tile 0) \<and>
   worldTile \<in> set (fst (getVisibleCoordinates (demoLayer demoProvider 256 [worldTile \<mapsto> Tile 0]))) \<and>
   cornerTile \<in> set (requestedCoordinates (demoLayer demoProvider 256 [worldTile \<mapsto> Tile 0])
                        demoProvider)"
proof -
  let ?D = "demoLayer demoProvider 256 [worldTile \<mapsto> Tile 0]"
  have h1: "provider ?D = Some demoProvider" by (simp add: demoLayer_def)
  have bz: "baseZoom ?D demoProvider = 1"
    by (simp add: baseZoom_def demoLayer_def demoProvider_def c_round_def c_trunc_def CLAMP_def)
  have h2: "minZoom demoProvider < baseZoom ?D demoProvider"
    by (simp add: bz) (simp add: demoProvider_def)
  have vb: "fst (visibleBounds demoProvider ?D) = \<lparr>minCol = 0, maxCol = 1, minRow = 0, maxRow = 1\<rparr>"
    by (simp add: eval_defs)
  have h3: "minCol (fst (visibleBounds demoProvider ?D)) \<le> 0"
    "0 < maxCol (fst (visibleBounds demoProvider ?D))"
    "minRow (fst (visibleBounds demoProvider ?D)) \<le> 0"
    "0 < maxRow (fst (visibleBounds demoProvider ?D))"
    by (simp_all add: vb)
  have c: "TileCoordinate (real_of_int 0) (real_of_int 0) (real_of_int (baseZoom ?D demoProvider))
             = cornerTile"
    "TileCoordinate (real_of_int (0 div 2)) (real_of_int (0 div 2))
        (real_of_int (baseZoom ?D demoProvider - 1)) = worldTile"
    unfolding bz by (simp_all add: TileCoordinate_def cornerTile_def worldTile_def)
  have h4: "getTile (loader ?D) cornerTile = None"
    by (simp add: getTile_def demoLayer_def cornerTile_def worldTile_def)
  have h5: "getTile (loader ?D) worldTile = Some (Tile 0)"
    by (simp add: getTile_def demoLayer_def)
  from cached_parent_stands_in [OF h1 h2 h3, of "Tile 0" "([], [])"] h4 h5 c
  have "worldTile \<in> set (fst (getVisibleCoordinates ?D)) \<and>
        cornerTile \<in> set (requestedCoordinates ?D demoProvider)"
    by simp
  with h1 h2 vb h4 h5 show ?thesis by blast
qed

text \<open>
  C1 as stated fails when the base zoom is the provider's minimum zoom: the walk never
  looks below it. With a provider whose pyramid starts at zoom 1, the cell \<open>(0, 0)\<close> of
  zoom 1 is visible and missing, its parent at zoom 0 is cached, and the returned set is
  empty.
\<close>

theorem cached_parent_below_minZoom_counterexample:
  "provider (demoLayer deepProvider 256 [worldTile \<mapsto> Tile 0]) = Some deepProvider \<and>
   baseZoom (demoLayer deepProvider 256 [worldTile \<mapsto> Tile 0]) deepProvider = 1 \<and>
   fst (visibleBounds deepProvider (demoLayer deepProvider 256 [worldTile \<mapsto> Tile 0])) =
     \<lparr>minCol = 0, maxCol = 1, minRow = 0, maxRow = 1\<rparr> \<and>
   getTile (loader (demoLayer deepProvider 256 [worldTile \<mapsto> Tile 0]))
     (TileCoordinate 0 0 1) = None \<and>
   getTile (loader (demoLayer deepProvider 256 [worldTile \<mapsto> Tile 0]))
     (TileCoordinate (real_of_int (0 div 2)) (real_of_int (0 div 2)) (1 - 1)) = Some (Tile 0) \<and>
   fst (getVisibleCoordinates (demoLayer deepProvider 256 [worldTile \<mapsto> Tile 0])) = []"
  by (simp add: eval_defs)


section \<open>Issuing the requests\<close>

lemma set_sort_insert: "set (sort_insert lt x xs) = insert x (set xs)"
  by (induction xs) auto

lemma set_std_sort: "set (std_sort lt xs) = set xs"
  by (induction xs) (simp_all add: std_sort_def set_sort_insert)

lemma issueRequests_pending:
  "start l c (requestTile p c) = Inl ExistsException \<Longrightarrow>
   issueRequests p (c # cs) l = issueRequests p cs l"
  by simp

lemma wanted_Cons:
  "wanted l (c # cs) =
     (if c \<notin> set (active l) \<and> tiles l c = None then insert c (wanted l cs) else wanted l cs)"
  unfolding wanted_def by auto

lemma wanted_queued: "wanted (l\<lparr>queued := q\<rparr>) cs = wanted l cs"
  by (simp add: wanted_def)

lemma issueRequests_wanted:
  "set (queued (issueRequests p cs l)) = set (queued l) \<union> wanted l cs"
proof (induction cs arbitrary: l)
  case Nil
  show ?case by (simp add: wanted_def)
next
  case (Cons c cs)
  from start_cases [of l c "requestTile p c"] show ?case
  proof (elim disjE conjE)
    assume s: "start l c (requestTile p c) = Inl ExistsException" and "pending l c"
    then have "c \<in> set (queued l) \<or> c \<in> set (active l)" by (simp add: pending_def)
    then have "set (queued l) \<union> wanted l (c # cs) = set (queued l) \<union> wanted l cs"
      by (auto simp: wanted_Cons)
    with s Cons.IH [of l] show ?thesis by simp
  next
    assume s: "start l c (requestTile p c) = Inr l" and "tiles l c \<noteq> None"
    then have "wanted l (c # cs) = wanted l cs" by (auto simp: wanted_Cons)
    with s Cons.IH [of l] show ?thesis by simp
  next
    assume s: "start l c (requestTile p c) = Inr (l\<lparr>queued := queued l @ [c]\<rparr>)"
      and n: "\<not> pending l c" "tiles l c = None"
    from n have "wanted l (c # cs) = insert c (wanted l cs)"
      by (simp add: wanted_Cons pending_def)
    moreover have "set (queued (issueRequests p cs (l\<lparr>queued := queued l @ [c]\<rparr>))) =
        insert c (set (queued l)) \<union> wanted l cs"
      using Cons.IH [of "l\<lparr>queued := queued l @ [c]\<rparr>"] by (simp add: wanted_queued)
    ultimately show ?thesis using s by simp
  qed
qed

lemma issueRequests_queued:
  "set (queued (issueRequests p cs l)) =
     set (queued l) \<union> {c \<in> set cs. c \<notin> set (active l) \<and> tiles l c = None}"
  using issueRequests_wanted [of p cs l] by (simp add: wanted_def)

lemma walkAncestors_loader:
  "tiles l' = tiles l \<Longrightarrow> walkAncestors l' mz coord i acc = walkAncestors l mz coord i acc"
proof (induction l mz coord i acc rule: walkAncestors.induct)
  case (1 l mz coord i acc)
  then have g: "getTile l' = getTile l" by (simp add: getTile_def fun_eq_iff)
  show ?case
  proof (cases "mz \<le> i \<and> getTile l (parentAt coord i) = None")
    case True
    with "1.IH" [of "parentAt coord i"] "1.prems" g show ?thesis
      by (subst (1 2) walkAncestors_unfold) (simp add: parentAt_def)
  next
    case False
    with g show ?thesis
      by (subst (1 2) walkAncestors_unfold) (auto split: option.splits)
  qed
qed

lemma collectVisible_loader:
  assumes "tiles l' = tiles l"
  shows "collectVisible l' mz bz b = collectVisible l mz bz b"
proof -
  have "visitCoord l' mz bz = visitCoord l mz bz"
    using assms walkAncestors_loader [OF assms]
    by (simp add: fun_eq_iff visitCoord_def getTile_def Let_def cong: option.case_cong)
  then show ?thesis by (simp add: collectVisible_def)
qed

lemma visibleBounds_loader:
  "fst (visibleBounds p (s\<lparr>loader := l\<rparr>)) = fst (visibleBounds p s)"
  by (simp add: visibleBounds_def corner_def layerPointToTileCoordinate_def getCenter_def
      baseZoom_def Let_def ofLogError_def split: option.splits)

lemma coordinatesToDraw_loader:
  "tiles l = tiles (loader s) \<Longrightarrow>
   coordinatesToDraw (s\<lparr>loader := l\<rparr>) p = coordinatesToDraw s p \<and>
   requestedCoordinates (s\<lparr>loader := l\<rparr>) p = requestedCoordinates s p"
  using collectVisible_loader [of l "loader s"]
  by (simp add: coordinatesToDraw_def requestedCoordinates_def visibleBounds_loader baseZoom_def)

lemma requested_not_cached: "c \<in> set (requestedCoordinates s p) \<Longrightarrow> tiles (loader s) c = None"
  using collected_cache
    [of "loader s" "minZoom p" "baseZoom s p" "fst (visibleBounds p s)"]
  by (simp add: requestedCoordinates_def getTile_def)

lemma issued_requests:
  assumes "provider s = Some p"
  shows "set (queued (loader (snd (getVisibleCoordinates s)))) =
           set (requestedCoordinates s p) - set (active (loader s))"
  using requested_not_cached [of _ s p]
  by (auto simp: getVisibleCoordinates_some [OF assms] issueRequests_queued cancelQueued_def
      set_std_sort)

text \<open>
  C8. A start that the loader refuses because the coordinate is already pending is
  skipped and the loop goes on with the rest of the list. So \<open>getVisibleCoordinates\<close>
  has no error result; the set it returns does not depend on what is queued or in
  transfer; afterwards the queue holds every requested coordinate except those in
  transfer, whose transfers, like the cached tiles, are left as they were.
\<close>

theorem duplicate_start_skipped:
  assumes "provider s = Some p"
  shows "(start l c (requestTile p c) = Inl ExistsException \<longrightarrow>
            issueRequests p (c # cs) l = issueRequests p cs l) \<and>
         fst (getVisibleCoordinates (s\<lparr>loader := (loader s)\<lparr>queued := q, active := a\<rparr>\<rparr>)) =
           fst (getVisibleCoordinates s) \<and>
         set (queued (loader (snd (getVisibleCoordinates s)))) =
           set (requestedCoordinates s p) - set (active (loader s)) \<and>
         active (loader (snd (getVisibleCoordinates s))) = active (loader s) \<and>
         tiles (loader (snd (getVisibleCoordinates s))) = tiles (loader s)"
proof -
  have p': "provider (s\<lparr>loader := (loader s)\<lparr>queued := q, active := a\<rparr>\<rparr>) = Some p"
    using assms by simp
  have "fst (getVisibleCoordinates (s\<lparr>loader := (loader s)\<lparr>queued := q, active := a\<rparr>\<rparr>)) =
           fst (getVisibleCoordinates s)"
    using coordinatesToDraw_loader [of "(loader s)\<lparr>queued := q, active := a\<rparr>" s p]
    by (simp add: getVisibleCoordinates_some [OF assms] getVisibleCoordinates_some [OF p'])
  moreover have "active (loader (snd (getVisibleCoordinates s))) = active (loader s) \<and>
         tiles (loader (snd (getVisibleCoordinates s))) = tiles (loader s)"
    by (simp add: getVisibleCoordinates_some [OF assms] issueRequests_frame cancelQueued_def)
  ultimately show ?thesis
    using issued_requests [OF assms] issueRequests_pending [of l c p cs] by blast
qed

text \<open>
  C8 on a layer whose loader is already transferring the tile of the only visible cell:
  the start for that cell is refused, and the request for the world tile, which is sorted
  after it, is still queued.
\<close>

theorem duplicate_start_skipped_witness:
  "provider busyLayer = Some demoProvider \<and>
   start (cancelQueued (loader busyLayer)) cornerTile (requestTile demoProvider cornerTile) =
     Inl ExistsException \<and>
   requestedCoordinates busyLayer demoProvider = [worldTile, cornerTile] \<and>
   fst (getVisibleCoordinates busyLayer) =
     fst (getVisibleCoordinates (demoLayer demoProvider 256 Map.empty)) \<and>
   set (queued (loader (snd (getVisibleCoordinates busyLayer)))) = {worldTile} \<and>
   active (loader (snd (getVisibleCoordinates busyLayer))) = [cornerTile]"
proof -
  have h: "provider busyLayer = Some demoProvider" by (simp add: busyLayer_def demoLayer_def)
  have e: "start (cancelQueued (loader busyLayer)) cornerTile (requestTile demoProvider cornerTile) =
     Inl ExistsException"
    by (simp add: busyLayer_def start_def pending_def cancelQueued_def)
  have r: "requestedCoordinates busyLayer demoProvider = [worldTile, cornerTile]"
    by (simp add: busyLayer_def eval_defs)
  have a: "active (loader busyLayer) = [cornerTile]" by (simp add: busyLayer_def)
  have b: "busyLayer\<lparr>loader := (loader busyLayer)\<lparr>queued := [], active := []\<rparr>\<rparr> =
        demoLayer demoProvider 256 Map.empty"
    by (simp add: busyLayer_def demoLayer_def)
  have w: "worldTile \<noteq> cornerTile" by (simp add: worldTile_def cornerTile_def)
  from duplicate_start_skipped [OF h, of "cancelQueued (loader busyLayer)" cornerTile "[]" "[]" "[]"]
  have "fst (getVisibleCoordinates (demoLayer demoProvider 256 Map.empty)) =
           fst (getVisibleCoordinates busyLayer)"
    and "set (queued (loader (snd (getVisibleCoordinates busyLayer)))) = {worldTile}"
    and "active (loader (snd (getVisibleCoordinates busyLayer))) = [cornerTile]"
    using w by (auto simp: r a b)
  with h e r show ?thesis by simp
qed


section \<open>Every coordinate is inside its grid\<close>

text \<open>
  C7. Every coordinate that \<open>getVisibleCoordinates\<close> passes to \<open>getTile\<close> for a cell of
  the iterated rectangle (the cell itself and its floored, clamped ancestors) has a whole
  row and column inside the grid of its zoom level; so has every coordinate of the set it
  returns, of the request set, and of the requests it queues. A coordinate that is looked
  up ends in one of the two sets, so the second statement covers the lookups too.
\<close>

theorem lookups_in_grid:
  assumes "provider s = Some p"
  shows "(\<forall>col rw c.
            minCol (fst (visibleBounds p s)) \<le> col \<and> col < maxCol (fst (visibleBounds p s)) \<and>
            minRow (fst (visibleBounds p s)) \<le> rw \<and> rw < maxRow (fst (visibleBounds p s)) \<and>
            lookedUp (minZoom p) (baseZoom s p) col rw c \<longrightarrow> inGrid c) \<and>
         (\<forall>c \<in> set (fst (getVisibleCoordinates s)) \<union> set (requestedCoordinates s p). inGrid c) \<and>
         (\<forall>c \<in> set (queued (loader (snd (getVisibleCoordinates s)))). inGrid c)"
proof -
  have a: "\<forall>col rw c.
            minCol (fst (visibleBounds p s)) \<le> col \<and> col < maxCol (fst (visibleBounds p s)) \<and>
            minRow (fst (visibleBounds p s)) \<le> rw \<and> rw < maxRow (fst (visibleBounds p s)) \<and>
            lookedUp (minZoom p) (baseZoom s p) col rw c \<longrightarrow> inGrid c"
    using visible_lookedUp_inGrid [of p s] by blast
  have b: "\<forall>c \<in> set (fst (getVisibleCoordinates s)) \<union> set (requestedCoordinates s p). inGrid c"
    using collected_inGrid [of s p] by (simp add: getVisibleCoordinates_some [OF assms])
  have c: "\<forall>c \<in> set (queued (loader (snd (getVisibleCoordinates s)))). inGrid c"
    using b issued_requests [OF assms] by blast
  from a b c show ?thesis by blast
qed

text \<open>C7 on a layer one tile wide at zoom 1 with an empty cache.\<close>

theorem lookups_in_grid_witness:
  "provider busyLayer = Some demoProvider \<and>
   requestedCoordinates busyLayer demoProvider = [worldTile, cornerTile] \<and>
   lookedUp (minZoom demoProvider) (baseZoom busyLayer demoProvider) 0 0 cornerTile \<and>
   inGrid worldTile \<and> inGrid cornerTile"
proof -
  have h: "provider busyLayer = Some demoProvider" by (simp add: busyLayer_def demoLayer_def)
  have r: "requestedCoordinates busyLayer demoProvider = [worldTile, cornerTile]"
    by (simp add: busyLayer_def eval_defs)
  have l: "lookedUp (minZoom demoProvider) (baseZoom busyLayer demoProvider) 0 0 cornerTile"
    by (simp add: lookedUp_def busyLayer_def eval_defs)
  from lookups_in_grid [OF h] r have "inGrid worldTile \<and> inGrid cornerTile" by simp
  with h r l show ?thesis by simp
qed


section \<open>A layer without a provider\<close>

text \<open>
  C5. Without a provider each operation that needs one logs an error and does nothing more:
  \<open>getVisibleCoordinates\<close> returns the empty set and leaves the loader alone (no request is
  issued), \<open>setCenter(GeoCoordinate, zoom)\<close> leaves the center (and the dirty flag) as they
  are, and \<open>layerPointToTileCoordinate\<close> returns the current center. The three functions
  are total: none has an error result.
\<close>

theorem no_provider_noop:
  assumes "provider s = None"
  shows "getVisibleCoordinates s =
           ([], ofLogError ''TileLayer::layerPointToTileCoordinate'' ''Provider is not defined.'' s) \<and>
         loader (snd (getVisibleCoordinates s)) = loader s \<and>
         setCenterGeo g z s = ofLogError ''TileLayer::setCenter'' ''Provider is not defined.'' s \<and>
         center (setCenterGeo g z s) = center s \<and>
         coordsDirty (setCenterGeo g z s) = coordsDirty s \<and>
         layerPointToTileCoordinate pt s =
           (center s,
            ofLogError ''TileLayer::layerPointToTileCoordinate'' ''Provider is not defined.'' s)"
  using assms
  by (simp add: getVisibleCoordinates_none setCenterGeo_def layerPointToTileCoordinate_def
      getCenter_def ofLogError_def)

text \<open>C5 on the layer that the constructor makes, which has no provider.\<close>

theorem no_provider_noop_witness:
  "provider newTileLayer = None \<and>
   fst (getVisibleCoordinates newTileLayer) = [] \<and>
   loader (snd (getVisibleCoordinates newTileLayer)) = loader newTileLayer \<and>
   center (setCenterGeo \<lparr>latitude = 48, longitude = 2\<rparr> 3 newTileLayer) = center newTileLayer \<and>
   fst (layerPointToTileCoordinate (10, 20) newTileLayer) = \<lparr>column = 1 / 2, row = 1 / 2, zoom = 0\<rparr>"
proof -
  have h: "provider newTileLayer = None" by (simp add: newTileLayer_def)
  show ?thesis
    using h no_provider_noop [OF h, of "\<lparr>latitude = 48, longitude = 2\<rparr>" 3 "(10, 20)"]
    by (simp add: newTileLayer_def ofLogError_def)
qed

section \<open>draw and the dirty flag\<close>

lemma draw_frame_eq:
  assumes "layerInv s"
  shows "\<exists>s'. draw x y s = Inr s' \<and>
     s' = s\<lparr>visisbleCoords := visisbleCoords s', coordsDirty := False,
            loader := (loader s)\<lparr>queued := queued (loader s')\<rparr>,
            fbo := fbo s', ofLog := ofLog s', screen := screen s'\<rparr> \<and> layerInv s'"
proof -
  from draw_total [OF assms, of x y] obtain drawn where
    d: "draw x y s = Inr ((refreshCoords s)\<lparr>fbo := drawn, screen := screen (refreshCoords s) @ [(x, y, drawn)]\<rparr>)"
    by blast
  let ?r = "refreshCoords s"
  let ?s' = "?r\<lparr>fbo := drawn, screen := screen ?r @ [(x, y, drawn)]\<rparr>"
  have l: "loader ?r = (loader s)\<lparr>queued := queued (loader ?r)\<rparr>"
    using refresh_fields [of s] by (cases "loader ?r", cases "loader s") simp
  have "?s' = s\<lparr>visisbleCoords := visisbleCoords ?s', coordsDirty := False,
            loader := (loader s)\<lparr>queued := queued (loader ?s')\<rparr>,
            fbo := fbo ?s', ofLog := ofLog ?s', screen := screen ?s'\<rparr>"
    using refresh_fields [of s] l by (cases ?r, cases s) simp
  moreover have "layerInv ?s'"
    using refresh_inv [OF assms] by (simp add: layerInv_def)
  ultimately show ?thesis using d by blast
qed


lemma layerInv_reachable:
  "layerInv newTileLayer \<and>
   (layerInv s \<longrightarrow>
      layerInv (setWidth w s) \<and> layerInv (setHeight h s) \<and> layerInv (setCenter c s) \<and>
      layerInv (setCenterGeo g z s) \<and> layerInv (onTileCached a s) \<and>
      layerInv (onTileUncached a s))"
  by (auto simp: layerInv_def newTileLayer_def setWidth_def setHeight_def setCenter_def
      setCenterGeo_def onTileCached_def onTileUncached_def ofLogError_def split: option.splits)

lemma draw_clean:
  assumes "layerInv s" and "\<not> coordsDirty s"
  shows "\<exists>s'. draw x y s = Inr s' \<and> visisbleCoords s' = visisbleCoords s \<and>
           loader s' = loader s \<and> ofLog s' = ofLog s \<and> \<not> coordsDirty s' \<and> layerInv s'"
proof -
  from assms(2) have r: "refreshCoords s = s" by (simp add: refreshCoords_def)
  from draw_total [OF assms(1), of x y] r assms show ?thesis
    by (auto simp: layerInv_def)
qed

lemma draw_dirty:
  assumes "layerInv s" and "coordsDirty s"
  shows "\<exists>s'. draw x y s = Inr s' \<and> visisbleCoords s' = fst (getVisibleCoordinates s) \<and>
           loader s' = loader (snd (getVisibleCoordinates s)) \<and> \<not> coordsDirty s' \<and> layerInv s'"
proof -
  from assms(2) have r: "refreshCoords s =
      (snd (getVisibleCoordinates s))\<lparr>visisbleCoords := fst (getVisibleCoordinates s), coordsDirty := False\<rparr>"
    by (simp add: refreshCoords_def split: prod.splits)
  from draw_total [OF assms(1), of x y] obtain drawn where
    d: "draw x y s = Inr ((refreshCoords s)\<lparr>fbo := drawn, screen := screen (refreshCoords s) @ [(x, y, drawn)]\<rparr>)"
    by blast
  have "layerInv ((refreshCoords s)\<lparr>fbo := drawn, screen := screen (refreshCoords s) @ [(x, y, drawn)]\<rparr>)"
    using refresh_inv [OF assms(1)] by (simp add: layerInv_def)
  with d r show ?thesis by simp
qed

text \<open>
  C6, amended. \<open>setWidth\<close>, \<open>setHeight\<close>, \<open>setCenter(TileCoordinate)\<close>, \<open>onTileCached\<close>
  and \<open>onTileUncached\<close> each set the dirty flag; \<open>setCenter(GeoCoordinate, zoom)\<close> sets it
  when the layer has a provider, and without one leaves it as it is. On a layer that
  satisfies \<open>layerInv\<close>, \<open>draw\<close> returns, clears the flag, and recomputes the visible set
  (driving the loader) exactly when the flag was set; otherwise it keeps the memoized set
  and does not touch the loader. A second \<open>draw\<close> right after reuses the memoized set.
\<close>

theorem dirty_flag_protocol:
  "coordsDirty (setWidth w s) \<and> coordsDirty (setHeight h s) \<and> coordsDirty (setCenter c s) \<and>
   (provider s \<noteq> None \<longrightarrow> coordsDirty (setCenterGeo g z s)) \<and>
   (provider s = None \<longrightarrow> coordsDirty (setCenterGeo g z s) = coordsDirty s) \<and>
   coordsDirty (onTileCached a s) \<and> coordsDirty (onTileUncached a s) \<and>
   (layerInv s \<longrightarrow>
      (\<exists>s'. draw x y s = Inr s' \<and> \<not> coordsDirty s' \<and>
         (visisbleCoords s', loader s') =
           (if coordsDirty s
            then (fst (getVisibleCoordinates s), loader (snd (getVisibleCoordinates s)))
            else (visisbleCoords s, loader s)) \<and>
         (\<exists>s''. draw x' y' s' = Inr s'' \<and> \<not> coordsDirty s'' \<and>
            visisbleCoords s'' = visisbleCoords s' \<and> loader s'' = loader s')))"
proof -
  have ops: "coordsDirty (setWidth w s) \<and> coordsDirty (setHeight h s) \<and>
      coordsDirty (setCenter c s) \<and> coordsDirty (onTileCached a s) \<and>
      coordsDirty (onTileUncached a s)"
    by (simp add: setWidth_def setHeight_def setCenter_def onTileCached_def onTileUncached_def)
  have geo: "(provider s \<noteq> None \<longrightarrow> coordsDirty (setCenterGeo g z s)) \<and>
      (provider s = None \<longrightarrow> coordsDirty (setCenterGeo g z s) = coordsDirty s)"
    by (auto simp: setCenterGeo_def setCenter_def ofLogError_def)
  have drw: "\<exists>s'. draw x y s = Inr s' \<and> \<not> coordsDirty s' \<and>
         (visisbleCoords s', loader s') =
           (if coordsDirty s
            then (fst (getVisibleCoordinates s), loader (snd (getVisibleCoordinates s)))
            else (visisbleCoords s, loader s)) \<and>
         (\<exists>s''. draw x' y' s' = Inr s'' \<and> \<not> coordsDirty s'' \<and>
            visisbleCoords s'' = visisbleCoords s' \<and> loader s'' = loader s')"
    if inv: "layerInv s"
  proof -
    obtain s' where s': "draw x y s = Inr s'" "\<not> coordsDirty s'" "layerInv s'"
        "(visisbleCoords s', loader s') =
           (if coordsDirty s
            then (fst (getVisibleCoordinates s), loader (snd (getVisibleCoordinates s)))
            else (visisbleCoords s, loader s))"
      using draw_clean [OF inv, of x y] draw_dirty [OF inv, of x y]
      by (cases "coordsDirty s") auto
    from draw_clean [OF s'(3) s'(2), of x' y'] s' show ?thesis by blast
  qed
  from ops geo drw show ?thesis by blast
qed

text \<open>
  C6, amended, on a layer with a provider (one tile wide, the world tile cached) and on a
  layer without one.
\<close>

theorem dirty_flag_protocol_witness:
  "provider (demoLayer demoProvider 256 [worldTile \<mapsto> Tile 0]) \<noteq> None \<and>
   coordsDirty (setCenterGeo \<lparr>latitude = 48, longitude = 2\<rparr> 3
                  (demoLayer demoProvider 256 [worldTile \<mapsto> Tile 0])) \<and>
   layerInv (demoLayer demoProvider 256 [worldTile \<mapsto> Tile 0]) \<and>
   (\<exists>s'. draw 0 0 (demoLayer demoProvider 256 [worldTile \<mapsto> Tile 0]) = Inr s' \<and>
         \<not> coordsDirty s' \<and> visisbleCoords s' = [worldTile] \<and>
         (\<exists>s''. draw 5 5 s' = Inr s'' \<and> visisbleCoords s'' = [worldTile])) \<and>
   provider (newTileLayer\<lparr>coordsDirty := False\<rparr>) = None \<and>
   \<not> coordsDirty (setCenterGeo \<lparr>latitude = 48, longitude = 2\<rparr> 3
                    (newTileLayer\<lparr>coordsDirty := False\<rparr>))"
proof -
  let ?D = "demoLayer demoProvider 256 [worldTile \<mapsto> Tile 0]"
  let ?N = "newTileLayer\<lparr>coordsDirty := False\<rparr>"
  have h1: "provider ?D \<noteq> None" by (simp add: demoLayer_def)
  have h2: "layerInv ?D" by (simp add: layerInv_def demoLayer_def)
  have h3: "provider ?N = None" by (simp add: newTileLayer_def)
  have v: "coordsDirty ?D" "fst (getVisibleCoordinates ?D) = [worldTile]"
    by (simp_all add: eval_defs)
  have n: "\<not> coordsDirty ?N" by simp
  note T1 = dirty_flag_protocol [of 0 ?D 0 worldTile "\<lparr>latitude = 48, longitude = 2\<rparr>" 3 worldTile 0 0 5 5]
  note T2 = dirty_flag_protocol [of 0 ?N 0 worldTile "\<lparr>latitude = 48, longitude = 2\<rparr>" 3 worldTile 0 0 5 5]
  from T1 h1 have a1: "coordsDirty (setCenterGeo \<lparr>latitude = 48, longitude = 2\<rparr> 3 ?D)"
    by blast
  from T1 h2 obtain s' s'' where d: "draw 0 0 ?D = Inr s'" "\<not> coordsDirty s'"
      "(visisbleCoords s', loader s') =
         (if coordsDirty ?D
          then (fst (getVisibleCoordinates ?D), loader (snd (getVisibleCoordinates ?D)))
          else (visisbleCoords ?D, loader ?D))"
      "draw 5 5 s' = Inr s''" "visisbleCoords s'' = visisbleCoords s'"
    by blast
  from d(3) v have "visisbleCoords s' = [worldTile]" by simp
  with d have a2: "\<exists>s'. draw 0 0 ?D = Inr s' \<and> \<not> coordsDirty s' \<and>
      visisbleCoords s' = [worldTile] \<and>
      (\<exists>s''. draw 5 5 s' = Inr s'' \<and> visisbleCoords s'' = [worldTile])"
    by auto
  from T2 h3 n have a3: "\<not> coordsDirty (setCenterGeo \<lparr>latitude = 48, longitude = 2\<rparr> 3 ?N)"
    by blast
  from h1 h2 h3 a1 a2 a3 show ?thesis by blast
qed

text \<open>
  C6 as stated fails: on a layer without a provider whose flag is clear,
  \<open>setCenter(GeoCoordinate, zoom)\<close> leaves the flag clear.
\<close>

theorem setCenterGeo_clean_counterexample:
  "\<not> coordsDirty (setCenterGeo \<lparr>latitude = 48, longitude = 2\<rparr> 3
                    (newTileLayer\<lparr>coordsDirty := False\<rparr>))"
  by (simp add: setCenterGeo_def newTileLayer_def ofLogError_def)


text \<open>
  C10, amended. On every layer that satisfies \<open>layerInv\<close>, \<open>draw(x, y)\<close> returns and leaves
  center, width, height, padding and provider unchanged, as well as the tiles the loader
  has cached and its transfers in progress. What it may modify is the memoized visible
  set, the dirty flag (which it clears), the loader's queue of waiting requests and the
  content of the framebuffer (besides the log and the screen, which are outside the layer).
\<close>

theorem draw_frame:
  assumes "layerInv s"
  shows "\<exists>s'. draw x y s = Inr s' \<and>
           center s' = center s \<and> width s' = width s \<and> height s' = height s \<and>
           padColumn s' = padColumn s \<and> padRow s' = padRow s \<and> provider s' = provider s \<and>
           \<not> coordsDirty s' \<and>
           tiles (loader s') = tiles (loader s) \<and> active (loader s') = active (loader s) \<and>
           s' = s\<lparr>visisbleCoords := visisbleCoords s', coordsDirty := False,
                  loader := (loader s)\<lparr>queued := queued (loader s')\<rparr>,
                  fbo := fbo s', ofLog := ofLog s', screen := screen s'\<rparr>"
proof -
  from draw_frame_eq [OF assms, of x y] obtain s' where
    d: "draw x y s = Inr s'" and
    e: "s' = s\<lparr>visisbleCoords := visisbleCoords s', coordsDirty := False,
                loader := (loader s)\<lparr>queued := queued (loader s')\<rparr>,
                fbo := fbo s', ofLog := ofLog s', screen := screen s'\<rparr>"
    by blast
  have "center s' = center s" by (subst e) simp
  moreover have "width s' = width s" by (subst e) simp
  moreover have "height s' = height s" by (subst e) simp
  moreover have "padColumn s' = padColumn s" by (subst e) simp
  moreover have "padRow s' = padRow s" by (subst e) simp
  moreover have "provider s' = provider s" by (subst e) simp
  moreover have "\<not> coordsDirty s'" by (subst e) simp
  moreover have "tiles (loader s') = tiles (loader s)" by (subst e) simp
  moreover have "active (loader s') = active (loader s)" by (subst e) simp
  ultimately show ?thesis using d e by blast
qed

text \<open>C10, amended, on a layer with a provider, one tile wide, the world tile cached.\<close>

theorem draw_frame_witness:
  "layerInv (demoLayer demoProvider 256 [worldTile \<mapsto> Tile 0]) \<and>
   (\<exists>s'. draw 0 0 (demoLayer demoProvider 256 [worldTile \<mapsto> Tile 0]) = Inr s' \<and>
         center s' = \<lparr>column = 1 / 2, row = 1 / 2, zoom = 1\<rparr> \<and> width s' = 256 \<and>
         height s' = 256 \<and> provider s' = Some demoProvider \<and> \<not> coordsDirty s')"
proof -
  let ?D = "demoLayer demoProvider 256 [worldTile \<mapsto> Tile 0]"
  have h: "layerInv ?D" by (simp add: layerInv_def demoLayer_def)
  have f: "center ?D = \<lparr>column = 1 / 2, row = 1 / 2, zoom = 1\<rparr>" "width ?D = 256"
    "height ?D = 256" "provider ?D = Some demoProvider"
    by (simp_all add: demoLayer_def)
  from draw_frame [OF h, of 0 0] obtain s' where
    "draw 0 0 ?D = Inr s'" "center s' = center ?D" "width s' = width ?D"
    "height s' = height ?D" "provider s' = provider ?D" "\<not> coordsDirty s'"
    by blast
  with f h show ?thesis by auto
qed

text \<open>
  C10 as stated fails: on that layer \<open>draw\<close> also changes the loader, whose queue was
  empty and now holds the request for the missing tile, and the framebuffer, which was
  empty and now holds the world tile.
\<close>

theorem draw_frame_counterexample:
  "map_sum id (\<lambda>s'. (queued (loader s'), map drawnCoord (fbo s')))
     (draw 0 0 (demoLayer demoProvider 256 [worldTile \<mapsto> Tile 0])) =
     Inr ([cornerTile], [worldTile]) \<and>
   queued (loader (demoLayer demoProvider 256 [worldTile \<mapsto> Tile 0])) = [] \<and>
   fbo (demoLayer demoProvider 256 [worldTile \<mapsto> Tile 0]) = []"
  by (simp add: eval_defs)


section \<open>The order of drawing\<close>

lemma drawTiles_coords:
  "drawTiles s cs acc = Inr ds \<Longrightarrow>
   map drawnCoord ds = map drawnCoord acc @ filter (\<lambda>c. getTile (loader s) c \<noteq> None) cs"
proof (induction cs arbitrary: acc)
  case Nil
  then show ?case by simp
next
  case (Cons c cs)
  show ?case
  proof (cases "getTile (loader s) c")
    case None
    with Cons show ?thesis by simp
  next
    case (Some t)
    with Cons.prems obtain p where p: "provider s = Some p"
      by (cases "provider s") simp_all
    with Some Cons.prems have "drawTiles s cs (acc @ [tileDraw s p c t]) = Inr ds" by simp
    from Cons.IH [OF this] Some show ?thesis by (simp add: tileDraw_def Let_def)
  qed
qed

lemma drawset_cached:
  "c \<in> set (fst (getVisibleCoordinates s)) \<Longrightarrow> getTile (loader s) c \<noteq> None"
proof (cases "provider s")
  case None
  then show "c \<in> set (fst (getVisibleCoordinates s)) \<Longrightarrow> getTile (loader s) c \<noteq> None"
    by (simp add: getVisibleCoordinates_none)
next
  case (Some p)
  then show "c \<in> set (fst (getVisibleCoordinates s)) \<Longrightarrow> getTile (loader s) c \<noteq> None"
    using collected_cache [of "loader s" "minZoom p" "baseZoom s p" "fst (visibleBounds p s)"]
    by (simp add: getVisibleCoordinates_some coordinatesToDraw_def)
qed

text \<open>
  \<^verbatim>\<open>draw\<close> iterates the set from \<^verbatim>\<open>rbegin()\<close> to \<^verbatim>\<open>rend()\<close>. When it has just recomputed the
  set, every coordinate of the set has its tile, so the tiles are drawn in exactly the
  reverse of the set's order of iteration. Which zoom level that puts first is decided by
  \<^verbatim>\<open>TileCoordinate::operator<\<close>, whose direction the sources do not show.
\<close>

lemma draw_reverse_of_set_order:
  assumes "coordsDirty s"
  shows "\<exists>s'. draw x y s = Inr s' \<and>
           visisbleCoords s' = fst (getVisibleCoordinates s) \<and>
           map drawnCoord (fbo s') = rev (visisbleCoords s')"
proof -
  define r where "r = refreshCoords s"
  have v: "visisbleCoords r = fst (getVisibleCoordinates s)"
    using assms by (simp add: r_def refreshCoords_def split: prod.splits)
  have t: "tiles (loader r) = tiles (loader s)" "provider r = provider s"
    using refresh_fields [of s] by (simp_all add: r_def)
  have inv: "layerInv r"
  proof (cases "provider s")
    case None
    then show ?thesis using v by (simp add: layerInv_def getVisibleCoordinates_none)
  next
    case (Some p)
    then show ?thesis using t by (simp add: layerInv_def)
  qed
  have clean: "\<not> coordsDirty r" using refresh_fields [of s] by (simp add: r_def)
  then have rr: "refreshCoords r = r" by (simp add: refreshCoords_def)
  obtain drawn where d: "drawTiles r (rev (visisbleCoords r)) [] = Inr drawn"
    using draw_total [OF inv, of x y] rr by (auto simp: draw_def Let_def split: sum.splits)
  have all: "filter (\<lambda>c. getTile (loader r) c \<noteq> None) (rev (visisbleCoords r)) =
      rev (visisbleCoords r)"
    using drawset_cached [of _ s] t(1) by (simp add: v getTile_def)
  from drawTiles_coords [OF d] all have m: "map drawnCoord drawn = rev (visisbleCoords r)"
    by simp
  have "draw x y s = Inr (r\<lparr>fbo := drawn, screen := screen r @ [(x, y, drawn)]\<rparr>)"
    using d by (simp add: draw_def Let_def r_def [symmetric])
  with v m show ?thesis by simp
qed


section \<open>The grid rectangle\<close>

lemma pow2_nat: "pow2 (real n) = 2 ^ n"
  by (simp add: pow2_def powr_realpow)

lemma pow2_whole:
  assumes "0 \<le> bz"
  shows "real_of_int \<lfloor>pow2 (real_of_int bz)\<rfloor> = pow2 (real_of_int bz)"
proof -
  from assms obtain n where "bz = int n" by (rule nonneg_int_cases)
  then show ?thesis by (simp add: pow2_nat)
qed

lemma baseZoom_spec: "baseZoom s p = specBaseZoom s p"
  by (simp add: baseZoom_def specBaseZoom_def CLAMP_def c_trunc_of_int Let_def)


lemma clampToGrid_code:
  "int32 v \<Longrightarrow> toInt32 (CLAMP (real_of_int v) 0 (pow2 (real_of_int bz))) = clampToGrid bz v"
  by (simp add: toInt32_CLAMP [OF pow2_pos] clampToGrid_def)


lemma gridBounds_spec:
  assumes "int32 \<lfloor>min (min (column a) (column b)) (min (column c) (column d))\<rfloor>"
    and "int32 (\<lfloor>min (min (column a) (column b)) (min (column c) (column d))\<rfloor> - pc)"
    and "int32 \<lceil>max (max (column a) (column b)) (max (column c) (column d))\<rceil>"
    and "int32 (\<lceil>max (max (column a) (column b)) (max (column c) (column d))\<rceil> + pc)"
    and "int32 \<lfloor>min (min (row a) (row b)) (min (row c) (row d))\<rfloor>"
    and "int32 (\<lfloor>min (min (row a) (row b)) (min (row c) (row d))\<rfloor> - pr)"
    and "int32 \<lceil>max (max (row a) (row b)) (max (row c) (row d))\<rceil>"
    and "int32 (\<lceil>max (max (row a) (row b)) (max (row c) (row d))\<rceil> + pr)"
  shows "gridBounds a b c d pc pr (pow2 (real_of_int bz)) =
     \<lparr>minCol = clampToGrid bz (\<lfloor>min (min (column a) (column b)) (min (column c) (column d))\<rfloor> - pc),
      maxCol = clampToGrid bz (\<lceil>max (max (column a) (column b)) (max (column c) (column d))\<rceil> + pc),
      minRow = clampToGrid bz (\<lfloor>min (min (row a) (row b)) (min (row c) (row d))\<rfloor> - pr),
      maxRow = clampToGrid bz (\<lceil>max (max (row a) (row b)) (max (row c) (row d))\<rceil> + pr)\<rparr>"
  by (simp only: gridBounds_def Let_def toInt32_of_int [OF assms(1)] toInt32_of_int [OF assms(3)]
      toInt32_of_int [OF assms(5)] toInt32_of_int [OF assms(7)]
      wrap32_id [OF assms(2)] wrap32_id [OF assms(4)] wrap32_id [OF assms(6)]
      wrap32_id [OF assms(8)]
      clampToGrid_code [OF assms(2)] clampToGrid_code [OF assms(4)]
      clampToGrid_code [OF assms(6)] clampToGrid_code [OF assms(8)])

lemma Min_four:
  fixes f :: "'a \<Rightarrow> real"
  shows "Min (f ` set [a, b, c, d]) = min (min (f a) (f b)) (min (f c) (f d))"
    and "Max (f ` set [a, b, c, d]) = max (max (f a) (f b)) (max (f c) (f d))"
  by (simp_all add: min.assoc max.assoc)

lemma corner_fst:
  "provider s = Some p \<Longrightarrow>
   corner pt bz s = (zoomTo (fst (layerPointToTileCoordinate pt s)) (real_of_int bz), s)"
  by (simp add: corner_def layerPointToTileCoordinate_def Let_def)

lemma visibleBounds_corners:
  assumes "provider s = Some p"
  shows "fst (visibleBounds p s) =
     gridBounds (zoomTo (fst (layerPointToTileCoordinate (0, 0) s)) (real_of_int (baseZoom s p)))
       (zoomTo (fst (layerPointToTileCoordinate (width s, 0) s)) (real_of_int (baseZoom s p)))
       (zoomTo (fst (layerPointToTileCoordinate (0, height s) s)) (real_of_int (baseZoom s p)))
       (zoomTo (fst (layerPointToTileCoordinate (width s, height s) s))
          (real_of_int (baseZoom s p)))
       (padColumn s) (padRow s) (pow2 (real_of_int (baseZoom s p)))"
  by (simp only: visibleBounds_def Let_def corner_fst [OF assms] prod.case fst_conv)

lemma visibleBounds_spec:
  assumes "provider s = Some p" and "boundsFit s p"
  shows "fst (visibleBounds p s) = specBounds s p"
proof -
  note fit = assms(2) [unfolded boundsFit_def viewportCorners_def Let_def list.map Min_four]
  show ?thesis
    unfolding visibleBounds_corners [OF assms(1)] specBounds_def viewportCorners_def
      Let_def list.map Min_four baseZoom_spec
    by (rule gridBounds_spec) (use fit in blast)+
qed

lemma fold_skip: "fold (\<lambda>x acc. acc) xs a = a"
  by (induction xs) simp_all

lemma collectVisible_empty:
  assumes "minCol b = maxCol b \<or> minRow b = maxRow b"
  shows "collectVisible l mz bz b = ([], [])"
  using assms
proof
  assume "minCol b = maxCol b"
  then show ?thesis by (simp add: collectVisible_def)
next
  assume "minRow b = maxRow b"
  then show ?thesis by (simp add: collectVisible_def fold_skip)
qed

lemma baseZoom_range:
  "minZoom p \<le> maxZoom p \<Longrightarrow> minZoom p \<le> baseZoom s p \<and> baseZoom s p \<le> maxZoom p"
  by (simp add: baseZoom_spec specBaseZoom_def Let_def)

text \<open>
  C3, amended. In \<open>getVisibleCoordinates\<close>, for every center and provider, the zoom of the
  grid is the rounded zoom of the center, clamped to the provider's range (and inside that
  range when the range is not empty). When the floor and the ceiling of the corners and the padded bounds are in the
  range of a 32-bit \<^verbatim>\<open>int\<close>, the bounds of the iterated rectangle are the floor of the least
  and the ceiling of the greatest column and row of the four viewport corners, mapped
  through \<open>layerPointToTileCoordinate\<close> and \<open>zoomTo(baseZoom)\<close>, padded outward and clamped
  to \<open>[0, 2^baseZoom]\<close>. The bounds are whole numbers; for a base zoom that is not
  negative so is \<open>2^baseZoom\<close>. The set that \<open>getVisibleCoordinates\<close> returns is collected
  over this rectangle.
\<close>

theorem grid_rectangle:
  assumes "provider s = Some p"
  shows "baseZoom s p = specBaseZoom s p \<and>
         (minZoom p \<le> maxZoom p \<longrightarrow> minZoom p \<le> baseZoom s p \<and> baseZoom s p \<le> maxZoom p) \<and>
         (0 \<le> baseZoom s p \<longrightarrow>
            real_of_int \<lfloor>pow2 (real_of_int (baseZoom s p))\<rfloor> = pow2 (real_of_int (baseZoom s p))) \<and>
         (boundsFit s p \<longrightarrow>
            fst (visibleBounds p s) = specBounds s p \<and>
            fst (getVisibleCoordinates s) =
              fst (collectVisible (loader s) (minZoom p) (specBaseZoom s p) (specBounds s p)))"
proof -
  have "fst (visibleBounds p s) = specBounds s p \<and>
      fst (getVisibleCoordinates s) =
        fst (collectVisible (loader s) (minZoom p) (specBaseZoom s p) (specBounds s p))"
    if fit: "boundsFit s p"
    by (simp add: getVisibleCoordinates_some [OF assms] coordinatesToDraw_def
        visibleBounds_spec [OF assms fit] baseZoom_spec)
  with baseZoom_spec [of s p] baseZoom_range [of p s] pow2_whole [of "baseZoom s p"]
  show ?thesis by blast
qed

text \<open>C3, amended, on a layer one tile wide at zoom 1.\<close>

theorem grid_rectangle_witness:
  "provider (demoLayer demoProvider 256 [worldTile \<mapsto> Tile 0]) = Some demoProvider \<and>
   boundsFit (demoLayer demoProvider 256 [worldTile \<mapsto> Tile 0]) demoProvider \<and>
   minZoom demoProvider \<le> maxZoom demoProvider \<and>
   0 \<le> baseZoom (demoLayer demoProvider 256 [worldTile \<mapsto> Tile 0]) demoProvider \<and>
   specBaseZoom (demoLayer demoProvider 256 [worldTile \<mapsto> Tile 0]) demoProvider = 1 \<and>
   specBounds (demoLayer demoProvider 256 [worldTile \<mapsto> Tile 0]) demoProvider =
     \<lparr>minCol = 0, maxCol = 1, minRow = 0, maxRow = 1\<rparr>"
proof -
  let ?D = "demoLayer demoProvider 256 [worldTile \<mapsto> Tile 0]"
  have h: "provider ?D = Some demoProvider" by (simp add: demoLayer_def)
  have m: "minZoom demoProvider \<le> maxZoom demoProvider" by (simp add: demoProvider_def)
  have bz: "baseZoom ?D demoProvider = 1"
    by (simp add: baseZoom_def demoLayer_def demoProvider_def c_round_def c_trunc_def CLAMP_def)
  have f: "boundsFit ?D demoProvider"
    unfolding boundsFit_def viewportCorners_def Let_def list.map Min_four
      baseZoom_spec [symmetric] bz
    by (simp add: layerPointToTileCoordinate_def getCenter_def demoLayer_def demoProvider_def
        newTileLayer_def zoomTo_def pow2_0 int32_def)
  have vb: "fst (visibleBounds demoProvider ?D) = \<lparr>minCol = 0, maxCol = 1, minRow = 0, maxRow = 1\<rparr>"
    by (simp add: eval_defs)
  from grid_rectangle [OF h] f bz vb
  have "specBaseZoom ?D demoProvider = 1 \<and>
        specBounds ?D demoProvider = \<lparr>minCol = 0, maxCol = 1, minRow = 0, maxRow = 1\<rparr>"
    by simp
  with h m bz f show ?thesis by simp
qed

text \<open>
  C3 as stated fails when a bound does not fit a 32-bit \<^verbatim>\<open>int\<close>. On a layer of one tile at
  zoom 40, centered on the cell in the middle of the world, the floor and the ceiling of
  the corners are \<open>2^39\<close> and \<open>2^39 + 1\<close>: the rectangle of the claim is that cell, while
  the conversions give \<^verbatim>\<open>INT_MIN\<close>, the bounds are clamped to 0, and
  \<open>getVisibleCoordinates\<close> returns the empty set and requests nothing.
\<close>

theorem grid_rectangle_int_overflow_counterexample:
  "provider farLayer = Some farProvider \<and>
   baseZoom farLayer farProvider = 40 \<and>
   specBounds farLayer farProvider =
     \<lparr>minCol = 549755813888, maxCol = 549755813889,
      minRow = 549755813888, maxRow = 549755813889\<rparr> \<and>
   fst (visibleBounds farProvider farLayer) =
     \<lparr>minCol = 0, maxCol = 0, minRow = 0, maxRow = 0\<rparr> \<and>
   fst (getVisibleCoordinates farLayer) = [] \<and>
   queued (loader (snd (getVisibleCoordinates farLayer))) = []"
proof -
  have p40: "pow2 40 = 1099511627776" by (simp add: pow2_def)
  have h: "provider farLayer = Some farProvider" by (simp add: farLayer_def)
  have bz: "baseZoom farLayer farProvider = 40"
    by (simp add: baseZoom_def farLayer_def farProvider_def c_round_def c_trunc_def CLAMP_def)
  have sb: "specBounds farLayer farProvider =
     \<lparr>minCol = 549755813888, maxCol = 549755813889,
      minRow = 549755813888, maxRow = 549755813889\<rparr>"
    unfolding specBounds_def viewportCorners_def Let_def list.map Min_four
      baseZoom_spec [symmetric] bz
    by (simp add: layerPointToTileCoordinate_def getCenter_def farLayer_def farProvider_def
        newTileLayer_def zoomTo_def pow2_0 clampToGrid_def p40)
  have vb: "fst (visibleBounds farProvider farLayer) =
     \<lparr>minCol = 0, maxCol = 0, minRow = 0, maxRow = 0\<rparr>"
    by (simp add: eval_defs p40)
  have "collectVisible (loader farLayer) (minZoom farProvider) (baseZoom farLayer farProvider)
          (fst (visibleBounds farProvider farLayer)) = ([], [])"
    by (rule collectVisible_empty) (simp add: vb)
  then have g: "fst (getVisibleCoordinates farLayer) = [] \<and>
      queued (loader (snd (getVisibleCoordinates farLayer))) = []"
    by (simp add: getVisibleCoordinates_some [OF h] coordinatesToDraw_def
        requestedCoordinates_def std_sort_def cancelQueued_def)
  from h bz sb vb g show ?thesis by simp
qed


section \<open>A viewport of size zero\<close>

lemma gridBounds_point:
  "(\<lfloor>column k\<rfloor> = \<lceil>column k\<rceil> \<longrightarrow>
      minCol (gridBounds k k k k 0 0 g) = maxCol (gridBounds k k k k 0 0 g)) \<and>
   (\<lfloor>row k\<rfloor> = \<lceil>row k\<rceil> \<longrightarrow>
      minRow (gridBounds k k k k 0 0 g) = maxRow (gridBounds k k k k 0 0 g))"
  by (simp add: gridBounds_def Let_def)

lemma floor_ceiling_whole: "x \<in> \<int> \<Longrightarrow> \<lfloor>x\<rfloor> = \<lceil>x\<rceil>"
  by (auto elim: Ints_cases)

text \<open>
  C4, amended. With a provider (of positive tile size), no padding and a viewport of
  width and height 0, the four corners are the center. When the center, rescaled to the
  base zoom, has a whole column or a whole row, the rectangle is empty:
  \<open>getVisibleCoordinates\<close> returns the empty set and starts no request (it only cancels
  the waiting ones).
\<close>

theorem degenerate_viewport:
  assumes "provider s = Some p" and "width s = 0" and "height s = 0"
    and "padColumn s = 0" and "padRow s = 0"
    and "0 < tileWidth p" and "0 < tileHeight p"
    and "column (zoomTo (center s) (real_of_int (baseZoom s p))) \<in> \<int> \<or>
         row (zoomTo (center s) (real_of_int (baseZoom s p))) \<in> \<int>"
  shows "getVisibleCoordinates s = ([], s\<lparr>loader := cancelQueued (loader s)\<rparr>)"
proof -
  define k where "k = zoomTo (center s) (real_of_int (baseZoom s p))"
  have pt: "fst (layerPointToTileCoordinate (0, 0) s) = center s"
    using assms(1,2,3) by (simp add: layerPointToTileCoordinate_def getCenter_def Let_def)
  have vb: "fst (visibleBounds p s) = gridBounds k k k k 0 0 (pow2 (real_of_int (baseZoom s p)))"
    by (simp only: visibleBounds_corners [OF assms(1)] assms(2,3,4,5) pt k_def)
  from assms(8) have "\<lfloor>column k\<rfloor> = \<lceil>column k\<rceil> \<or> \<lfloor>row k\<rfloor> = \<lceil>row k\<rceil>"
    unfolding k_def using floor_ceiling_whole by blast
  with gridBounds_point [of k "pow2 (real_of_int (baseZoom s p))"]
  have "minCol (gridBounds k k k k 0 0 (pow2 (real_of_int (baseZoom s p)))) =
          maxCol (gridBounds k k k k 0 0 (pow2 (real_of_int (baseZoom s p)))) \<or>
        minRow (gridBounds k k k k 0 0 (pow2 (real_of_int (baseZoom s p)))) =
          maxRow (gridBounds k k k k 0 0 (pow2 (real_of_int (baseZoom s p))))"
    by blast
  then have "minCol (fst (visibleBounds p s)) = maxCol (fst (visibleBounds p s)) \<or>
      minRow (fst (visibleBounds p s)) = maxRow (fst (visibleBounds p s))"
    by (simp only: vb)
  then have "collectVisible (loader s) (minZoom p) (baseZoom s p) (fst (visibleBounds p s)) = ([], [])"
    by (rule collectVisible_empty)
  then show ?thesis
    by (simp add: getVisibleCoordinates_some [OF assms(1)] coordinatesToDraw_def
        requestedCoordinates_def std_sort_def)
qed

text \<open>C4, amended, on a layer of size 0 centered on the grid line of column 1 at zoom 1.\<close>

theorem degenerate_viewport_witness:
  "provider (flatLayer \<lparr>column = 1, row = 3 / 2, zoom = 1\<rparr> Map.empty) = Some demoProvider \<and>
   width (flatLayer \<lparr>column = 1, row = 3 / 2, zoom = 1\<rparr> Map.empty) = 0 \<and>
   height (flatLayer \<lparr>column = 1, row = 3 / 2, zoom = 1\<rparr> Map.empty) = 0 \<and>
   column (zoomTo (center (flatLayer \<lparr>column = 1, row = 3 / 2, zoom = 1\<rparr> Map.empty))
     (real_of_int (baseZoom (flatLayer \<lparr>column = 1, row = 3 / 2, zoom = 1\<rparr> Map.empty)
        demoProvider))) = 1 \<and>
   fst (getVisibleCoordinates (flatLayer \<lparr>column = 1, row = 3 / 2, zoom = 1\<rparr> Map.empty)) = [] \<and>
   queued (loader (snd (getVisibleCoordinates
     (flatLayer \<lparr>column = 1, row = 3 / 2, zoom = 1\<rparr> Map.empty)))) = []"
proof -
  let ?W = "flatLayer \<lparr>column = 1, row = 3 / 2, zoom = 1\<rparr> Map.empty"
  have h1: "provider ?W = Some demoProvider" and h2: "width ?W = 0" and h3: "height ?W = 0"
    and h4: "padColumn ?W = 0" and h5: "padRow ?W = 0"
    by (simp_all add: flatLayer_def newTileLayer_def)
  have h6: "0 < tileWidth demoProvider" and h7: "0 < tileHeight demoProvider"
    by (simp_all add: demoProvider_def)
  have c: "column (zoomTo (center ?W) (real_of_int (baseZoom ?W demoProvider))) = 1"
    by (simp add: flatLayer_def newTileLayer_def demoProvider_def baseZoom_def zoomTo_def
        c_round_def c_trunc_def CLAMP_def pow2_0)
  then have h8: "column (zoomTo (center ?W) (real_of_int (baseZoom ?W demoProvider))) \<in> \<int> \<or>
      row (zoomTo (center ?W) (real_of_int (baseZoom ?W demoProvider))) \<in> \<int>"
    by simp
  from degenerate_viewport [OF h1 h2 h3 h4 h5 h6 h7 h8]
  have "fst (getVisibleCoordinates ?W) = [] \<and>
      queued (loader (snd (getVisibleCoordinates ?W))) = []"
    by (simp add: cancelQueued_def)
  with h1 h2 h3 c show ?thesis by simp
qed

text \<open>
  C4 as stated fails for the center that the constructor sets, the middle of the world
  tile: the rectangle is the cell under the center. With an empty cache its tile is
  requested; with the tile cached the returned set is not empty.
\<close>

theorem degenerate_viewport_counterexample:
  "provider (flatLayer \<lparr>column = 1 / 2, row = 1 / 2, zoom = 0\<rparr> Map.empty) = Some demoProvider \<and>
   width (flatLayer \<lparr>column = 1 / 2, row = 1 / 2, zoom = 0\<rparr> Map.empty) = 0 \<and>
   height (flatLayer \<lparr>column = 1 / 2, row = 1 / 2, zoom = 0\<rparr> Map.empty) = 0 \<and>
   queued (loader (snd (getVisibleCoordinates
     (flatLayer \<lparr>column = 1 / 2, row = 1 / 2, zoom = 0\<rparr> Map.empty)))) = [worldTile] \<and>
   fst (getVisibleCoordinates
     (flatLayer \<lparr>column = 1 / 2, row = 1 / 2, zoom = 0\<rparr> [worldTile \<mapsto> Tile 0])) = [worldTile]"
  by (simp add: eval_defs)

end
